theory Spec2Isabelle
  imports Complex_Main "HOL-Library.AList"
begin

section \<open>Exceptions\<close>

text \<open>
  The Python exceptions that the modelled code raises or lets through. The first seven are
  subclasses of \<open>Exception\<close>; the last three derive from \<open>BaseException\<close> only, so
  an \<open>except Exception\<close> clause does not catch them.
\<close>

datatype exc =
    ValueError string
  | KeyError string
  | RuntimeError string
  | AttributeError string
  | ZeroDivisionError string
  | TypeError string
  | NotImplementedError string
  | KeyboardInterrupt
  | SystemExit
  | CancelledError

fun is_Exception :: "exc \<Rightarrow> bool" where
  "is_Exception KeyboardInterrupt = False"
| "is_Exception SystemExit = False"
| "is_Exception CancelledError = False"
| "is_Exception _ = True"

text \<open>A list comprehension whose element expression may raise: the first exception wins.\<close>

fun mapM_exc :: "('a \<Rightarrow> exc + 'b) \<Rightarrow> 'a list \<Rightarrow> exc + 'b list" where
  "mapM_exc f [] = Inr []"
| "mapM_exc f (x # xs) =
     (case f x of
        Inl e \<Rightarrow> Inl e
      | Inr y \<Rightarrow> (case mapM_exc f xs of Inl e \<Rightarrow> Inl e | Inr ys \<Rightarrow> Inr (y # ys)))"

section \<open>Tensors, modules and the store\<close>

text \<open>
  A tensor has an element type, a shape and its elements in storage order. Three
  element types are kept apart: 32-bit floats (what \<open>.float()\<close> produces and what
  parameters usually are), 64-bit floats, and 64-bit integers (counters and index
  buffers). An element is a real number or one of the special values of the floats.
\<close>

datatype dtype = Float32 | Float64 | Int64

fun is_floating :: "dtype \<Rightarrow> bool" where
  "is_floating Int64 = False"
| "is_floating _ = True"

datatype scalar = Finite real | PosInf | NegInf | NaN

record tensor =
  dtype :: dtype
  shape :: "nat list"
  data :: "scalar list"

definition wf_tensor :: "tensor \<Rightarrow> bool" where
  "wf_tensor t = (length (data t) = prod_list (shape t))"

text \<open>
  What the library computes with floats is an input of the model, as the code does not
  determine it: rounding, the order of summation, overflow to infinity.
  \<open>to_float32 d\<close> converts an element of type \<open>d\<close> to a 32-bit float,
  \<open>mean_float32\<close> is the mean of a list of 32-bit floats as
  \<open>torch.stack(...).mean(dim=0)\<close> takes it along the stacked dimension,
  \<open>convert s d\<close> converts an element of type \<open>s\<close> to type \<open>d\<close> where the
  result is not fixed below, \<open>mul_scalar d\<close> multiplies an element of a tensor of type
  \<open>d\<close> by a Python float, \<open>add_elem d\<close> adds two elements of type \<open>d\<close>, and
  \<open>float_div\<close> is the quotient of two Python floats with a divisor other than zero.
\<close>

record library =
  to_float32 :: "dtype \<Rightarrow> scalar \<Rightarrow> scalar"
  mean_float32 :: "scalar list \<Rightarrow> scalar"
  convert :: "dtype \<Rightarrow> dtype \<Rightarrow> scalar \<Rightarrow> scalar"
  mul_scalar :: "dtype \<Rightarrow> scalar \<Rightarrow> real \<Rightarrow> scalar"
  add_elem :: "dtype \<Rightarrow> scalar \<Rightarrow> scalar \<Rightarrow> scalar"
  float_div :: "real \<Rightarrow> real \<Rightarrow> real"

text \<open>\<open>t.float()\<close>: a tensor that is of 32-bit floats already is returned as it is.\<close>

definition float_elem :: "library \<Rightarrow> dtype \<Rightarrow> scalar \<Rightarrow> scalar" where
  "float_elem lib d v = (if d = Float32 then v else to_float32 lib d v)"

definition float_tensor :: "library \<Rightarrow> tensor \<Rightarrow> tensor" where
  "float_tensor lib t =
     \<lparr>dtype = Float32, shape = shape t, data = map (float_elem lib (dtype t)) (data t)\<rparr>"

text \<open>
  \<open>param.copy_(input)\<close> converts each element to the element type of the target. An
  element of the same type is copied as it is. A finite float becomes an integer by
  dropping its fraction (rounding towards zero), as long as the result is in range.
\<close>

definition trunc :: "real \<Rightarrow> int" where
  "trunc r = (if 0 \<le> r then \<lfloor>r\<rfloor> else \<lceil>r\<rceil>)"

definition copy_elem :: "library \<Rightarrow> dtype \<Rightarrow> dtype \<Rightarrow> scalar \<Rightarrow> scalar" where
  "copy_elem lib src dst v =
     (if src = dst then v
      else if dst = Int64 then
        (case v of
           Finite r \<Rightarrow>
             if - (2 ^ 63) \<le> trunc r \<and> trunc r < 2 ^ 63 then Finite (of_int (trunc r))
             else convert lib src dst v
         | _ \<Rightarrow> convert lib src dst v)
      else convert lib src dst v)"

text \<open>
  \<open>torch.stack(tensors).mean(dim=0)\<close> on tensors of 32-bit floats: stacking needs a
  non-empty list of tensors of one shape; the mean along the new leading dimension is
  taken element by element and has the shape of the inputs.
\<close>

definition stack_mean :: "library \<Rightarrow> tensor list \<Rightarrow> exc + tensor" where
  "stack_mean lib tensors =
     (if tensors = [] then Inl (RuntimeError ''stack expects a non-empty TensorList'')
      else if \<exists>t \<in> set tensors. shape t \<noteq> shape (hd tensors)
        then Inl (RuntimeError ''stack expects each tensor to be equal size'')
      else Inr \<lparr>dtype = Float32, shape = shape (hd tensors),
                data = map (\<lambda>i. mean_float32 lib (map (\<lambda>t. data t ! i) tensors))
                         [0..<length (data (hd tensors))]\<rparr>)"

text \<open>
  A module (\<open>nn.Module\<close>) is a mutable object that owns tensors. \<open>entries\<close> lists the
  names of its parameters and buffers in the order of \<open>state_dict()\<close>, each with the
  place in \<open>storage\<close> where its tensor is kept. Two names with the same place are one
  tensor under two names (tied parameters): writing through one name is seen through
  the other. The store maps the address of a module to the module; two Python references
  to the same module are the same address. Modules do not share tensors with each other.
\<close>

record module_state =
  entries :: "(string \<times> nat) list"
  storage :: "nat \<Rightarrow> tensor"

type_synonym addr = nat
type_synonym heap = "addr \<Rightarrow> module_state"

text \<open>
  \<open>m.state_dict()\<close>: the ordered table from names to tensors. Its tensors share the
  storage of the module.
\<close>

definition state_dict :: "module_state \<Rightarrow> (string \<times> tensor) list" where
  "state_dict m = map (\<lambda>(k, s). (k, storage m s)) (entries m)"

text \<open>\<open>d[key]\<close> on a dictionary: a missing key raises \<open>KeyError\<close>.\<close>

definition getitem :: "(string \<times> 'v) list \<Rightarrow> string \<Rightarrow> exc + 'v" where
  "getitem d key = (case map_of d key of None \<Rightarrow> Inl (KeyError key) | Some t \<Rightarrow> Inr t)"

text \<open>
  \<open>module.load_state_dict(sd)\<close> (strict). The names of the module are visited in
  order. A name that \<open>sd\<close> lacks, or whose tensor in \<open>sd\<close> has another shape than
  the module's, is noted as an error and skipped; otherwise the tensor of \<open>sd\<close> is
  copied into the module's tensor, element by element, converted to its element type.
  Only after all names have been visited does the call raise \<open>RuntimeError\<close>, when an
  error was noted or \<open>sd\<close> has a name the module lacks: what was copied stays copied.
\<close>

fun load_entries ::
  "library \<Rightarrow> (string \<times> tensor) list \<Rightarrow> (string \<times> nat) list \<Rightarrow> bool \<times> (nat \<Rightarrow> tensor) \<Rightarrow>
   bool \<times> (nat \<Rightarrow> tensor)" where
  "load_entries lib sd [] acc = acc"
| "load_entries lib sd ((k, s) # rest) (err, st) =
     (case map_of sd k of
        None \<Rightarrow> load_entries lib sd rest (True, st)
      | Some input \<Rightarrow>
          if shape input \<noteq> shape (st s) then load_entries lib sd rest (True, st)
          else load_entries lib sd rest
                 (err, st(s := (st s)\<lparr>data :=
                    map (copy_elem lib (dtype input) (dtype (st s))) (data input)\<rparr>)))"

definition load_state_dict ::
  "library \<Rightarrow> heap \<Rightarrow> addr \<Rightarrow> (string \<times> tensor) list \<Rightarrow> exc option \<times> heap" where
  "load_state_dict lib h a sd =
     (let m = h a;
          (err, st) = load_entries lib sd (entries m) (False, storage m);
          unexpected = (\<exists>k \<in> set (map fst sd). k \<notin> set (map fst (entries m)));
          h' = h(a := m\<lparr>storage := st\<rparr>)
      in (if err \<or> unexpected then Some (RuntimeError ''Error(s) in loading state_dict'')
          else None, h'))"

section \<open>ModularTrainer: federated averaging\<close>

text \<open>
  The loop \<open>for key in avg_state_dict.keys()\<close> of \<open>_federated_averaging\<close>. Each
  round reads \<open>m.state_dict()[key].float()\<close> of every model from the store, and
  rebinds the entry of the local dictionary \<open>avg_state_dict\<close> to the new tensor; the
  store is not written.
\<close>

fun average_keys ::
  "library \<Rightarrow> heap \<Rightarrow> addr list \<Rightarrow> string list \<Rightarrow> (string \<times> tensor) list \<Rightarrow>
   exc + (string \<times> tensor) list" where
  "average_keys lib h models [] avg_state_dict = Inr avg_state_dict"
| "average_keys lib h models (key # keys) avg_state_dict =
     (case mapM_exc (\<lambda>m. case getitem (state_dict (h m)) key of
                            Inl e \<Rightarrow> Inl e
                          | Inr t \<Rightarrow> Inr (float_tensor lib t)) models of
        Inl e \<Rightarrow> Inl e
      | Inr tensors \<Rightarrow>
          (case stack_mean lib tensors of
             Inl e \<Rightarrow> Inl e
           | Inr t \<Rightarrow> average_keys lib h models keys (AList.update key t avg_state_dict)))"

text \<open>
  \<open>ModularTrainer._federated_averaging\<close>. The result is what the call returns or
  raises, together with the store it leaves. \<open>avg_model = models[0]\<close> is the first
  input itself, and \<open>avg_model.load_state_dict\<close> writes into it.
\<close>

definition federated_averaging ::
  "library \<Rightarrow> heap \<Rightarrow> addr list \<Rightarrow> (exc + addr) \<times> heap" where
  "federated_averaging lib h models =
     (if models = [] then (Inl (ValueError ''No models to average''), h)
      else
        let avg_model = hd models;
            avg_state_dict = state_dict (h avg_model)
        in case average_keys lib h models (map fst avg_state_dict) avg_state_dict of
             Inl e \<Rightarrow> (Inl e, h)
           | Inr sd \<Rightarrow>
               (case load_state_dict lib h avg_model sd of
                  (Some e, h') \<Rightarrow> (Inl e, h')
                | (None, h') \<Rightarrow> (Inr avg_model, h')))"

text \<open>
  The specification's notion of modules sharing a parameter schema: every module has the
  same set of parameter names, each once, and the tensors of one name have the same
  shape in all of them. The order of the names and the element types may differ. Every
  tensor has as many elements as its shape says.
\<close>

definition same_schema :: "heap \<Rightarrow> addr list \<Rightarrow> bool" where
  "same_schema h models =
     (\<forall>m \<in> set models.
        distinct (map fst (entries (h m))) \<and>
        set (map fst (entries (h m))) = set (map fst (entries (h (hd models)))) \<and>
        (\<forall>(k, t) \<in> set (state_dict (h m)).
           wf_tensor t \<and>
           (case map_of (state_dict (h (hd models))) k of
              None \<Rightarrow> False
            | Some t0 \<Rightarrow> shape t = shape t0)))"

section \<open>ModularTrainer: differential privacy\<close>

text \<open>
  Python's \<open>sub in key\<close> on strings: \<open>sub\<close> occurs in \<open>key\<close> as a contiguous
  substring.
\<close>

fun starts_with :: "string \<Rightarrow> string \<Rightarrow> bool" where
  "starts_with [] s = True"
| "starts_with (c # cs) [] = False"
| "starts_with (c # cs) (d # ds) = (c = d \<and> starts_with cs ds)"

fun str_contains :: "string \<Rightarrow> string \<Rightarrow> bool" where
  "str_contains sub [] = (sub = [])"
| "str_contains sub (c # cs) = (starts_with sub (c # cs) \<or> str_contains sub cs)"

text \<open>The guard \<open>"weight" in key or "bias" in key\<close>.\<close>

definition noised_name :: "string \<Rightarrow> bool" where
  "noised_name key = (str_contains ''weight'' key \<or> str_contains ''bias'' key)"

text \<open>
  One round of the loop on the tensor \<open>t\<close> of a name that passes the guard:
  \<open>noise = torch.randn_like(t) * noise_scale\<close> and then the in-place \<open>t += noise\<close>.
  The random draw is an input: \<open>randn key i\<close> is element \<open>i\<close> of the standard-normal
  sample that \<open>torch.randn_like\<close> returns in the round for \<open>key\<close>.
\<close>

definition add_noise ::
  "library \<Rightarrow> (string \<Rightarrow> nat \<Rightarrow> scalar) \<Rightarrow> real \<Rightarrow> string \<Rightarrow> tensor \<Rightarrow> tensor" where
  "add_noise lib randn noise_scale key t =
     (let noise = map (\<lambda>i. mul_scalar lib (dtype t) (randn key i) noise_scale)
                    [0..<length (data t)]
      in t\<lparr>data := map2 (add_elem lib (dtype t)) (data t) noise\<rparr>)"

text \<open>
  The loop \<open>for key in state_dict.keys()\<close> of \<open>_apply_differential_privacy\<close>. The
  tensors of \<open>state_dict\<close> share their storage with the module, so the in-place
  addition writes into the module at once, and a tensor that has two names is written
  in the round of each name that passes the guard. In such a round the division
  \<open>sensitivity / epsilon\<close> comes first and raises \<open>ZeroDivisionError\<close> for a zero
  \<open>epsilon\<close>; then \<open>torch.randn_like\<close> raises \<open>RuntimeError\<close> for a tensor that
  is not of floats. An exception ends the loop and leaves what earlier rounds have
  written.
\<close>

fun dp_keys ::
  "library \<Rightarrow> (string \<Rightarrow> nat \<Rightarrow> scalar) \<Rightarrow> real \<Rightarrow> addr \<Rightarrow> string list \<Rightarrow> heap \<Rightarrow> exc option \<times> heap" where
  "dp_keys lib randn epsilon model [] h = (None, h)"
| "dp_keys lib randn epsilon model (key # keys) h =
     (if noised_name key then
        if epsilon = 0 then (Some (ZeroDivisionError ''float division by zero''), h)
        else
          let sensitivity = 1;
              noise_scale = float_div lib sensitivity epsilon
          in case map_of (entries (h model)) key of
               None \<Rightarrow> (Some (KeyError key), h)
             | Some s \<Rightarrow>
                 let t = storage (h model) s in
                 if \<not> is_floating (dtype t)
                   then (Some (RuntimeError ''normal_kernel_cpu not implemented for Long''), h)
                 else dp_keys lib randn epsilon model keys
                        (h(model := (h model)\<lparr>storage :=
                             (storage (h model))(s := add_noise lib randn noise_scale key t)\<rparr>))
      else dp_keys lib randn epsilon model keys h)"

text \<open>
  \<open>ModularTrainer._apply_differential_privacy\<close>: the loop, then
  \<open>model.load_state_dict(state_dict)\<close> with the module's own (already updated)
  tensors; the reference that was passed in is returned.
\<close>

definition apply_differential_privacy ::
  "library \<Rightarrow> (string \<Rightarrow> nat \<Rightarrow> scalar) \<Rightarrow> heap \<Rightarrow> addr \<Rightarrow> real \<Rightarrow> (exc + addr) \<times> heap" where
  "apply_differential_privacy lib randn h model epsilon =
     (case dp_keys lib randn epsilon model (map fst (entries (h model))) h of
        (Some e, h1) \<Rightarrow> (Inl e, h1)
      | (None, h1) \<Rightarrow>
          (case load_state_dict lib h1 model (state_dict (h1 model)) of
             (Some e, h2) \<Rightarrow> (Inl e, h2)
           | (None, h2) \<Rightarrow> (Inr model, h2)))"

section \<open>EnsembleModel\<close>

text \<open>
  A linear layer \<open>nn.Linear(n_in, n_out)\<close>: a weight matrix of \<open>n_out\<close> rows and
  \<open>n_in\<close> columns, and a bias of \<open>n_out\<close> entries. The constructor draws the
  initial values at random; the draw is an input, a pair of the function giving the
  weight at row \<open>i\<close> and column \<open>j\<close> and the function giving the bias at \<open>i\<close>.
  The constructor accepts \<open>n_in = 0\<close>.

  All operations of \<open>forward\<close> act on the last dimension of their argument, so the
  model follows one row of the batch: a vector is a list of reals.
\<close>

record linear =
  in_features :: nat
  out_features :: nat
  weight :: "real list list"
  bias :: "real list"

definition nn_Linear :: "(nat \<Rightarrow> nat \<Rightarrow> real) \<times> (nat \<Rightarrow> real) \<Rightarrow> nat \<Rightarrow> nat \<Rightarrow> linear" where
  "nn_Linear init n_in n_out =
     \<lparr>in_features = n_in, out_features = n_out,
      weight = map (\<lambda>i. map (\<lambda>j. fst init i j) [0..<n_in]) [0..<n_out],
      bias = map (snd init) [0..<n_out]\<rparr>"

text \<open>
  Applying the layer: the width of the input must be \<open>in_features\<close>, otherwise the
  matrix product raises \<open>RuntimeError\<close>; the result is \<open>weight \<cdot> x + bias\<close>.
\<close>

definition linear_forward :: "linear \<Rightarrow> real list \<Rightarrow> exc + real list" where
  "linear_forward l x =
     (if length x \<noteq> in_features l
        then Inl (RuntimeError ''mat1 and mat2 shapes cannot be multiplied'')
      else Inr (map (\<lambda>(row, b). (\<Sum>(w, v)\<leftarrow>zip row x. w * v) + b) (zip (weight l) (bias l))))"

text \<open>\<open>torch.relu\<close>.\<close>

definition relu :: "real list \<Rightarrow> real list" where
  "relu x = map (max 0) x"

text \<open>
  \<open>torch.cat(outputs, dim=-1)\<close> on one row: the vectors are joined in list order; an
  empty list raises \<open>RuntimeError\<close>.
\<close>

definition torch_cat :: "real list list \<Rightarrow> exc + real list" where
  "torch_cat tensors =
     (if tensors = [] then Inl (RuntimeError ''torch.cat(): expected a non-empty list of Tensors'')
      else Inr (concat tensors))"

text \<open>
  \<open>EnsembleModel\<close>: what \<open>__init__\<close> assigns. The three values are modules, so
  \<open>nn.Module.__setattr__\<close> files them in the table \<open>_modules\<close> of the object under
  the names \<open>modules\<close>, \<open>integration_layer\<close> and \<open>classifier\<close>. The member
  modules are kept in an \<open>nn.ModuleDict\<close>, an ordered table: a list of pairs of name
  and module in insertion order. The type \<open>'m\<close> of member modules is left open.
\<close>

record 'm EnsembleModel =
  modules :: "(string \<times> 'm) list"
  integration_layer :: linear
  classifier :: linear

text \<open>
  \<open>nn.ModuleDict(modules)\<close> adds the entries one by one with \<open>add_module\<close>, which
  raises \<open>KeyError\<close> for a name that is already an attribute of the table object, for
  a name that contains a dot and for the empty name. Which names are attributes of a
  fresh \<open>nn.ModuleDict\<close> is the library's: the list \<open>attrs\<close> is an input.
\<close>

definition add_module_check :: "string list \<Rightarrow> string \<Rightarrow> exc option" where
  "add_module_check attrs nm =
     (if nm \<in> set attrs then Some (KeyError (''attribute already exists: '' @ nm))
      else if CHR ''.'' \<in> set nm then Some (KeyError (''module name cannot contain a dot: '' @ nm))
      else if nm = [] then Some (KeyError ''module name cannot be the empty string'')
      else None)"

definition ModuleDict_init :: "string list \<Rightarrow> (string \<times> 'm) list \<Rightarrow> exc + (string \<times> 'm) list" where
  "ModuleDict_init attrs ms =
     mapM_exc (\<lambda>(nm, module).
        case add_module_check attrs nm of Some e \<Rightarrow> Inl e | None \<Rightarrow> Inr (nm, module)) ms"

text \<open>
  \<open>EnsembleModel.__init__\<close>: the integration layer has \<open>len(modules) * 768\<close>
  inputs and 768 outputs, the classifier 768 inputs and 2 outputs. The function has no
  check of its argument; only the table constructor can raise.
\<close>

definition EnsembleModel_init ::
  "string list \<Rightarrow> (nat \<Rightarrow> nat \<Rightarrow> real) \<times> (nat \<Rightarrow> real) \<Rightarrow> (nat \<Rightarrow> nat \<Rightarrow> real) \<times> (nat \<Rightarrow> real) \<Rightarrow>
   (string \<times> 'm) list \<Rightarrow> exc + 'm EnsembleModel" where
  "EnsembleModel_init attrs init1 init2 ms =
     (case ModuleDict_init attrs ms of
        Inl e \<Rightarrow> Inl e
      | Inr table \<Rightarrow>
          Inr \<lparr>modules = table,
               integration_layer = nn_Linear init1 (length ms * 768) 768,
               classifier = nn_Linear init2 768 2\<rparr>)"

text \<open>\<open>ModuleIntegrator.create_ensemble\<close> returns \<open>EnsembleModel(modules)\<close>.\<close>

definition create_ensemble ::
  "string list \<Rightarrow> (nat \<Rightarrow> nat \<Rightarrow> real) \<times> (nat \<Rightarrow> real) \<Rightarrow> (nat \<Rightarrow> nat \<Rightarrow> real) \<times> (nat \<Rightarrow> real) \<Rightarrow>
   (string \<times> 'm) list \<Rightarrow> exc + 'm EnsembleModel" where
  "create_ensemble attrs init1 init2 ms = EnsembleModel_init attrs init1 init2 ms"

text \<open>
  Reading an attribute of the object. Python looks the name up in the class first; only
  when the class has no such attribute does \<open>nn.Module.__getattr__\<close> consult the table
  \<open>_modules\<close>. The class \<open>nn.Module\<close> defines the methods listed here, among them
  \<open>modules\<close>. So \<open>self.modules\<close> is the bound method \<open>nn.Module.modules\<close>, not
  the table that \<open>__init__\<close> stored under that name, while
  \<open>self.integration_layer\<close> and \<open>self.classifier\<close> are the stored layers.
  The list need not be complete: these three names are the only ones that \<open>forward\<close>
  reads.
\<close>

definition nn_Module_methods :: "string list" where
  "nn_Module_methods =
     [''add_module'', ''apply'', ''buffers'', ''children'', ''cpu'', ''cuda'', ''double'',
      ''eval'', ''extra_repr'', ''float'', ''forward'', ''half'', ''load_state_dict'',
      ''modules'', ''named_buffers'', ''named_children'', ''named_modules'',
      ''named_parameters'', ''parameters'', ''register_buffer'', ''register_module'',
      ''register_parameter'', ''requires_grad_'', ''state_dict'', ''to'', ''train'', ''type'',
      ''zero_grad'']"

datatype 'm attribute =
    Method string
  | Dict "(string \<times> 'm) list"
  | Layer linear

definition getattr :: "'m EnsembleModel \<Rightarrow> string \<Rightarrow> exc + 'm attribute" where
  "getattr self nm =
     (if nm \<in> set nn_Module_methods then Inr (Method nm)
      else if nm = ''modules'' then Inr (Dict (modules self))
      else if nm = ''integration_layer'' then Inr (Layer (integration_layer self))
      else if nm = ''classifier'' then Inr (Layer (classifier self))
      else Inl (AttributeError nm))"

text \<open>
  \<open>a.items()\<close> and the call \<open>a(x)\<close> on the value of an attribute. A bound method
  has no attribute \<open>items\<close>.
\<close>

definition items :: "'m attribute \<Rightarrow> exc + (string \<times> 'm) list" where
  "items a =
     (case a of
        Dict table \<Rightarrow> Inr table
      | Method nm \<Rightarrow> Inl (AttributeError ''function object has no attribute items'')
      | Layer l \<Rightarrow> Inl (AttributeError ''Linear object has no attribute items''))"

definition call :: "'m attribute \<Rightarrow> real list \<Rightarrow> exc + real list" where
  "call a x =
     (case a of
        Layer l \<Rightarrow> linear_forward l x
      | Method nm \<Rightarrow> Inl (TypeError ''unexpected argument'')
      | Dict table \<Rightarrow> Inl (NotImplementedError ''ModuleDict has no forward''))"

text \<open>
  \<open>EnsembleModel.forward\<close>. What a member module computes is outside the source:
  \<open>pooler_output module x\<close> stands for \<open>module(input_ids, attention_mask).pooler_output\<close>,
  with \<open>x\<close> the pair of arguments; it may raise. The loop visits the entries of
  \<open>self.modules.items()\<close> in order and appends each output; the first exception ends
  the call.
\<close>

definition forward ::
  "('m \<Rightarrow> 'x \<Rightarrow> exc + real list) \<Rightarrow> 'm EnsembleModel \<Rightarrow> 'x \<Rightarrow> exc + real list" where
  "forward pooler_output self x =
     (case getattr self ''modules'' of
        Inl e \<Rightarrow> Inl e
      | Inr ms \<Rightarrow>
     (case items ms of
        Inl e \<Rightarrow> Inl e
      | Inr table \<Rightarrow>
     (case mapM_exc (\<lambda>(nm, module). pooler_output module x) table of
        Inl e \<Rightarrow> Inl e
      | Inr outputs \<Rightarrow>
     (case torch_cat outputs of
        Inl e \<Rightarrow> Inl e
      | Inr combined \<Rightarrow>
     (case getattr self ''integration_layer'' of
        Inl e \<Rightarrow> Inl e
      | Inr il \<Rightarrow>
     (case call il combined of
        Inl e \<Rightarrow> Inl e
      | Inr integrated \<Rightarrow>
     (case getattr self ''classifier'' of
        Inl e \<Rightarrow> Inl e
      | Inr cl \<Rightarrow> call cl (relu integrated))))))))"

section \<open>ContinuousLearningPipeline\<close>

text \<open>The dataclass \<open>ModuleConfig\<close>.\<close>

record ModuleConfig =
  name :: string
  base_model :: string
  datasets :: "string list"
  learning_rate :: real
  batch_size :: int
  epochs :: int
  max_length :: int
  jurisdiction :: "string option"
  domain :: "string option"

text \<open>
  What the loop does to the outside, in order: calls of \<open>logger.info\<close> and
  \<open>logger.error\<close>, calls of \<open>asyncio.sleep\<close> with the number of seconds, and the
  call of \<open>deploy_updates\<close>.
\<close>

datatype event =
    LogInfo string
  | LogError exc
  | Sleep nat
  | DeployUpdates

text \<open>
  The trainer with its registry \<open>trained_modules\<close>, and the pipeline that owns it.
  \<open>draws\<close> counts the calls of \<open>np.random.random()\<close> made so far.
\<close>

record 'm ModularTrainer =
  output_dir :: string
  trained_modules :: "string \<rightharpoonup> 'm"

record 'm ContinuousLearningPipeline =
  trainer :: "'m ModularTrainer"
  performance_history :: "real list"
  draws :: nat
  trace :: "event list"

text \<open>
  What the loop uses and the source does not determine. \<open>random_draws n\<close> is the value
  of call \<open>n\<close> of \<open>np.random.random()\<close>. \<open>fit\<close> stands for the training of
  \<open>train_module\<close> with the external libraries (loading the model and the data, training,
  saving), which returns the trained model or raises. The loop calls
  \<open>self.get_module_config\<close> and \<open>self.deploy_updates\<close>, which the class does not
  define: both are parameters that return or raise. \<open>deploy_updates\<close> is given the
  trainer to read. As the source stands, each of the two calls raises
  \<open>AttributeError\<close>, which is one value of the parameter.
\<close>

record 'm env =
  random_draws :: "nat \<Rightarrow> real"
  fit :: "ModuleConfig \<Rightarrow> exc + 'm"
  get_module_config :: "string \<Rightarrow> exc + ModuleConfig"
  deploy_updates :: "'m ModularTrainer \<Rightarrow> exc option"

text \<open>Appending events to the trace.\<close>

definition emit :: "event list \<Rightarrow> 'm ContinuousLearningPipeline \<Rightarrow> 'm ContinuousLearningPipeline" where
  "emit evs s = s\<lparr>trace := trace s @ evs\<rparr>"

text \<open>
  \<open>ModularTrainer.train_module\<close>: log, train, then store the model in the registry
  under \<open>config.name\<close> and log again.
\<close>

definition train_module ::
  "'m env \<Rightarrow> ModuleConfig \<Rightarrow> 'm ContinuousLearningPipeline \<Rightarrow> (exc + 'm) \<times> 'm ContinuousLearningPipeline" where
  "train_module env config s =
     (let s1 = emit [LogInfo (''Training module: '' @ name config)] s in
      case fit env config of
        Inl e \<Rightarrow> (Inl e, s1)
      | Inr model \<Rightarrow>
          (let model_path = output_dir (trainer s1) @ ''/'' @ name config;
               s2 = s1\<lparr>trainer := (trainer s1)
                      \<lparr>trained_modules := (trained_modules (trainer s1))(name config \<mapsto> model)\<rparr>\<rparr>
           in (Inr model,
               emit [LogInfo (''Module '' @ name config @ '' trained and saved to '' @ model_path)]
                 s2)))"

text \<open>
  The three methods of the pipeline: \<open>collect_new_data\<close> is \<open>pass\<close>,
  \<open>evaluate_performance\<close> returns a random draw, and
  \<open>identify_improvement_targets\<close> returns the empty list.
\<close>

definition collect_new_data :: "'m ContinuousLearningPipeline \<Rightarrow> 'm ContinuousLearningPipeline" where
  "collect_new_data s = s"

definition evaluate_performance :: "'m env \<Rightarrow> 'm ContinuousLearningPipeline \<Rightarrow> real \<times> 'm ContinuousLearningPipeline" where
  "evaluate_performance env s = (random_draws env (draws s), s\<lparr>draws := Suc (draws s)\<rparr>)"

definition identify_improvement_targets :: "real \<Rightarrow> string list" where
  "identify_improvement_targets performance = []"

text \<open>The loop \<open>for module_name in modules_to_update\<close>.\<close>

fun train_selected ::
  "'m env \<Rightarrow> string list \<Rightarrow> 'm ContinuousLearningPipeline \<Rightarrow> (exc + unit) \<times> 'm ContinuousLearningPipeline" where
  "train_selected env [] s = (Inr (), s)"
| "train_selected env (module_name # rest) s =
     (case get_module_config env module_name of
        Inl e \<Rightarrow> (Inl e, s)
      | Inr config \<Rightarrow>
          (case train_module env config s of
             (Inl e, s') \<Rightarrow> (Inl e, s')
           | (Inr model, s') \<Rightarrow> train_selected env rest s'))"

text \<open>
  The body of the \<open>try\<close> block of \<open>run_training_loop\<close>. The result is the
  exception that leaves the block, if any, with the state reached.
\<close>

definition try_body :: "'m env \<Rightarrow> 'm ContinuousLearningPipeline \<Rightarrow> (exc + unit) \<times> 'm ContinuousLearningPipeline" where
  "try_body env s =
     (let s1 = collect_new_data s;
          (current_performance, s2) = evaluate_performance env s1;
          s3 = s2\<lparr>performance_history := performance_history s2 @ [current_performance]\<rparr>;
          modules_to_update = identify_improvement_targets current_performance
      in case train_selected env modules_to_update s3 of
           (Inl e, s4) \<Rightarrow> (Inl e, s4)
         | (Inr u, s4) \<Rightarrow>
             (let (new_performance, s5) = evaluate_performance env s4 in
              if new_performance > current_performance then
                (let s6 = emit [LogInfo ''Performance improved! Deploying updates...'',
                                DeployUpdates] s5
                 in case deploy_updates env (trainer s6) of
                      Some e \<Rightarrow> (Inl e, s6)
                    | None \<Rightarrow> (Inr (), emit [Sleep 86400] s6))
              else (Inr (), emit [Sleep 86400] s5)))"

text \<open>
  One round of \<open>while True\<close>: the \<open>try\<close> block and its handler
  \<open>except Exception\<close>, which logs and sleeps 3600 seconds. An exception that is not an
  \<open>Exception\<close> leaves the loop.
\<close>

definition loop_iteration :: "'m env \<Rightarrow> 'm ContinuousLearningPipeline \<Rightarrow> exc option \<times> 'm ContinuousLearningPipeline" where
  "loop_iteration env s =
     (case try_body env s of
        (Inr u, s') \<Rightarrow> (None, s')
      | (Inl e, s') \<Rightarrow>
          if is_Exception e then (None, emit [LogError e, Sleep 3600] s')
          else (Some e, s'))"

text \<open>
  \<open>run_training_loop\<close>, cut after \<open>n\<close> rounds: the loop has no \<open>break\<close> and
  no \<open>return\<close>. The result \<open>(None, s)\<close> says that the loop is still running after
  \<open>n\<close> rounds, in state \<open>s\<close>; \<open>(Some e, s)\<close> that exception \<open>e\<close> has left it.
\<close>

fun run_training_loop :: "'m env \<Rightarrow> nat \<Rightarrow> 'm ContinuousLearningPipeline \<Rightarrow> exc option \<times> 'm ContinuousLearningPipeline" where
  "run_training_loop env 0 s = (None, s)"
| "run_training_loop env (Suc n) s =
     (case loop_iteration env s of
        (None, s') \<Rightarrow> run_training_loop env n s'
      | (Some e, s') \<Rightarrow> (Some e, s'))"

text \<open>The events that one pass through the \<open>try\<close> block adds to the trace.\<close>

definition cycle_events :: "'m env \<Rightarrow> 'm ContinuousLearningPipeline \<Rightarrow> event list" where
  "cycle_events env s = drop (length (trace s)) (trace (snd (try_body env s)))"

section \<open>Values for the examples\<close>

text \<open>
  The examples below need one arithmetic to compute with. This one does not round: every
  operation returns the exact result on finite values. The library's floats agree with
  it wherever the exact result is itself a float of the type, which is so at every value
  of the examples (small integers and halves).
\<close>

fun exact1 :: "(real \<Rightarrow> real) \<Rightarrow> scalar \<Rightarrow> scalar" where
  "exact1 f (Finite a) = Finite (f a)"
| "exact1 f v = NaN"

fun exact2 :: "(real \<Rightarrow> real \<Rightarrow> real) \<Rightarrow> scalar \<Rightarrow> scalar \<Rightarrow> scalar" where
  "exact2 f (Finite a) (Finite b) = Finite (f a b)"
| "exact2 f v w = NaN"

fun exact_sum :: "scalar list \<Rightarrow> scalar" where
  "exact_sum [] = Finite 0"
| "exact_sum (v # vs) = exact2 (+) v (exact_sum vs)"

definition exact_arithmetic :: library where
  "exact_arithmetic =
     \<lparr>to_float32 = (\<lambda>d v. v),
      mean_float32 = (\<lambda>vs. exact1 (\<lambda>a. a / real (length vs)) (exact_sum vs)),
      convert = (\<lambda>s d v. v),
      mul_scalar = (\<lambda>d v c. exact1 (\<lambda>a. a * c) v),
      add_elem = (\<lambda>d. exact2 (+)),
      float_div = (\<lambda>a b. a / b)\<rparr>"

text \<open>
  A one-dimensional tensor from a list of numbers, and a module whose tensors are those of
  a given table, each name with a place of its own.
\<close>

definition vec :: "dtype \<Rightarrow> real list \<Rightarrow> tensor" where
  "vec d xs = \<lparr>dtype = d, shape = [length xs], data = map Finite xs\<rparr>"

definition module_of :: "(string \<times> tensor) list \<Rightarrow> module_state" where
  "module_of sd =
     \<lparr>entries = zip (map fst sd) [0..<length sd],
      storage = (\<lambda>s. if s < length sd then snd (sd ! s) else vec Float32 [])\<rparr>"


section \<open>Federated averaging: results\<close>

subsection \<open>Auxiliary facts\<close>

lemma mapM_exc_total:
  "(\<And>x. x \<in> set xs \<Longrightarrow> f x = Inr (g x)) \<Longrightarrow> mapM_exc f xs = Inr (map g xs)"
  by (induction xs) auto

lemma fold_update_keys:
  "set keys \<subseteq> set (map fst sd) \<Longrightarrow>
     map fst (fold (\<lambda>k. AList.update k (f k)) keys sd) = map fst sd"
proof (induction keys arbitrary: sd)
  case Nil
  then show ?case by simp
next
  case (Cons a keys)
  have same: "map fst (AList.update a (f a) sd) = map fst sd"
    using Cons.prems by (simp add: update_keys)
  have "set keys \<subseteq> set (map fst (AList.update a (f a) sd))"
    using Cons.prems same by simp
  from Cons.IH [OF this] same show ?case by simp
qed

lemma fold_update_map_of:
  "map_of (fold (\<lambda>k. AList.update k (f k)) keys sd) k =
     (if k \<in> set keys then Some (f k) else map_of sd k)"
  by (induction keys arbitrary: sd) (auto simp: update_conv')

lemma state_dict_keys: "map fst (state_dict m) = map fst (entries m)"
  by (simp add: state_dict_def case_prod_unfold comp_def)

lemma state_dict_map_of:
  "map_of (state_dict m) k = map_option (storage m) (map_of (entries m) k)"
  by (simp add: state_dict_def map_of_map)

lemma float_tensor_simps:
  "dtype (float_tensor lib t) = Float32"
  "shape (float_tensor lib t) = shape t"
  "length (data (float_tensor lib t)) = length (data t)"
  "i < length (data t) \<Longrightarrow> data (float_tensor lib t) ! i = float_elem lib (dtype t) (data t ! i)"
  by (simp_all add: float_tensor_def)

lemma average_keys_total:
  assumes ne: "models \<noteq> []"
    and ok: "\<And>k m. k \<in> set keys \<Longrightarrow> m \<in> set models \<Longrightarrow>
           \<exists>t. map_of (state_dict (h m)) k = Some t \<and>
               shape t = shape (the (map_of (state_dict (h (hd models))) k))"
  shows "average_keys lib h models keys sd =
     Inr (fold (\<lambda>k. AList.update k
            \<lparr>dtype = Float32,
             shape = shape (the (map_of (state_dict (h (hd models))) k)),
             data = map (\<lambda>i. mean_float32 lib
                            (map (\<lambda>m. data (float_tensor lib (the (map_of (state_dict (h m)) k))) ! i)
                               models))
                      [0..<length (data (the (map_of (state_dict (h (hd models))) k)))]\<rparr>) keys sd)"
  using ok
proof (induction keys arbitrary: sd)
  case Nil
  then show ?case by simp
next
  case (Cons key keys)
  let ?T = "\<lambda>m. the (map_of (state_dict (h m)) key)"
  let ?F = "\<lambda>m. float_tensor lib (?T m)"
  have get: "mapM_exc (\<lambda>m. case getitem (state_dict (h m)) key of
                            Inl e \<Rightarrow> Inl e
                          | Inr t \<Rightarrow> Inr (float_tensor lib t)) models = Inr (map ?F models)"
  proof (rule mapM_exc_total)
    fix m assume "m \<in> set models"
    with Cons.prems [of key m] obtain t where "map_of (state_dict (h m)) key = Some t" by auto
    then show "(case getitem (state_dict (h m)) key of
                  Inl e \<Rightarrow> Inl e | Inr t \<Rightarrow> Inr (float_tensor lib t)) = Inr (?F m)"
      by (simp add: getitem_def)
  qed
  have shp: "\<forall>m \<in> set models. shape (?F m) = shape (?T (hd models))"
  proof
    fix m assume "m \<in> set models"
    with Cons.prems [of key m] obtain t where
      "map_of (state_dict (h m)) key = Some t" "shape t = shape (?T (hd models))" by auto
    then show "shape (?F m) = shape (?T (hd models))" by (simp add: float_tensor_simps)
  qed
  have hd_map: "hd (map ?F models) = ?F (hd models)"
    using ne by (simp add: hd_map)
  have mean: "stack_mean lib (map ?F models) =
      Inr \<lparr>dtype = Float32, shape = shape (?T (hd models)),
           data = map (\<lambda>i. mean_float32 lib (map (\<lambda>m. data (?F m) ! i) models))
                    [0..<length (data (?T (hd models)))]\<rparr>"
  proof -
    have nonempty: "map ?F models \<noteq> []" using ne by simp
    have eq: "\<not> (\<exists>t \<in> set (map ?F models). shape t \<noteq> shape (?T (hd models)))"
      using shp by auto
    have cols: "\<And>i. map (\<lambda>t. data t ! i) (map ?F models) = map (\<lambda>m. data (?F m) ! i) models"
      by (simp add: comp_def)
    show ?thesis
      unfolding stack_mean_def hd_map
      by (simp only: nonempty eq cols if_False float_tensor_simps)
  qed
  have rest: "\<And>k m. k \<in> set keys \<Longrightarrow> m \<in> set models \<Longrightarrow>
           \<exists>t. map_of (state_dict (h m)) k = Some t \<and>
               shape t = shape (the (map_of (state_dict (h (hd models))) k))"
    using Cons.prems by simp
  show ?case by (simp add: get mean Cons.IH [OF rest])
qed

lemma load_state_dict_frame:
  "load_state_dict lib h a sd = (r, h') \<Longrightarrow> b \<noteq> a \<Longrightarrow> h' b = h b"
  by (auto simp: load_state_dict_def Let_def split: prod.splits)

lemma load_entries_last:
  assumes "\<forall>(k, s) \<in> set ps. \<exists>input. map_of sd k = Some input \<and> shape input = shape (st s)"
  shows "\<exists>st'. load_entries lib sd ps (err, st) = (err, st') \<and>
           (\<forall>s. s \<notin> snd ` set ps \<longrightarrow> st' s = st s) \<and>
           (\<forall>k s ps1 ps2. ps = ps1 @ (k, s) # ps2 \<and> s \<notin> snd ` set ps2 \<longrightarrow>
              st' s = (st s)\<lparr>data := map (copy_elem lib (dtype (the (map_of sd k))) (dtype (st s)))
                                     (data (the (map_of sd k)))\<rparr>)"
  using assms
proof (induction ps arbitrary: st)
  case Nil
  then show ?case by simp
next
  case (Cons p ps)
  obtain k0 s0 where p: "p = (k0, s0)" by (cases p)
  from Cons.prems p obtain input where
    inp: "map_of sd k0 = Some input" "shape input = shape (st s0)" by auto
  define st1 where
    "st1 = st(s0 := (st s0)\<lparr>data := map (copy_elem lib (dtype input) (dtype (st s0))) (data input)\<rparr>)"
  have step: "load_entries lib sd (p # ps) (err, st) = load_entries lib sd ps (err, st1)"
    using inp by (simp add: p st1_def)
  have other: "\<And>s'. s' \<noteq> s0 \<Longrightarrow> st1 s' = st s'" by (simp add: st1_def)
  have sh: "\<And>s'. shape (st1 s') = shape (st s')" by (simp add: st1_def)
  have dt: "\<And>s'. dtype (st1 s') = dtype (st s')" by (simp add: st1_def)
  have upd: "\<And>s' d. (st1 s')\<lparr>data := d\<rparr> = (st s')\<lparr>data := d\<rparr>" by (simp add: st1_def)
  have c: "\<forall>(k', s') \<in> set ps. \<exists>input. map_of sd k' = Some input \<and> shape input = shape (st1 s')"
  proof (clarify)
    fix k' s' assume "(k', s') \<in> set ps"
    with Cons.prems obtain input' where
      "map_of sd k' = Some input'" "shape input' = shape (st s')" by auto
    then show "\<exists>input. map_of sd k' = Some input \<and> shape input = shape (st1 s')"
      by (simp add: sh)
  qed
  from Cons.IH [OF c] obtain st' where
    st': "load_entries lib sd ps (err, st1) = (err, st')"
         "\<forall>s. s \<notin> snd ` set ps \<longrightarrow> st' s = st1 s"
         "\<forall>k s ps1 ps2. ps = ps1 @ (k, s) # ps2 \<and> s \<notin> snd ` set ps2 \<longrightarrow>
              st' s = (st1 s)\<lparr>data := map (copy_elem lib (dtype (the (map_of sd k))) (dtype (st1 s)))
                                     (data (the (map_of sd k)))\<rparr>"
    by blast
  have a: "load_entries lib sd (p # ps) (err, st) = (err, st')" using step st'(1) by simp
  have b: "\<forall>s'. s' \<notin> snd ` set (p # ps) \<longrightarrow> st' s' = st s'"
    using st'(2) other p by auto
  have cc: "\<forall>k s ps1 ps2. p # ps = ps1 @ (k, s) # ps2 \<and> s \<notin> snd ` set ps2 \<longrightarrow>
              st' s = (st s)\<lparr>data := map (copy_elem lib (dtype (the (map_of sd k))) (dtype (st s)))
                                     (data (the (map_of sd k)))\<rparr>"
  proof (intro allI impI)
    fix k s ps1 ps2
    assume h: "p # ps = ps1 @ (k, s) # ps2 \<and> s \<notin> snd ` set ps2"
    show "st' s = (st s)\<lparr>data := map (copy_elem lib (dtype (the (map_of sd k))) (dtype (st s)))
                                     (data (the (map_of sd k)))\<rparr>"
    proof (cases ps1)
      case Nil
      with h have eq: "p = (k, s)" "ps = ps2" by simp_all
      with h have "s \<notin> snd ` set ps" by simp
      with st'(2) have "st' s = st1 s" by simp
      moreover from eq p have "k = k0" "s = s0" by simp_all
      ultimately show ?thesis using inp by (simp add: st1_def)
    next
      case (Cons q ps1')
      with h have "ps = ps1' @ (k, s) # ps2 \<and> s \<notin> snd ` set ps2" by simp
      with st'(3) have "st' s =
          (st1 s)\<lparr>data := map (copy_elem lib (dtype (the (map_of sd k))) (dtype (st1 s)))
                                     (data (the (map_of sd k)))\<rparr>"
        by blast
      then show ?thesis by (simp only: upd dt)
    qed
  qed
  from a b cc show ?case by blast
qed

lemma same_schema_lookup:
  assumes ss: "same_schema h models" and m: "m \<in> set models"
    and k: "k \<in> set (map fst (entries (h (hd models))))"
  shows "\<exists>t t0. map_of (state_dict (h m)) k = Some t \<and>
           map_of (state_dict (h (hd models))) k = Some t0 \<and>
           wf_tensor t \<and> shape t = shape t0"
proof -
  from ss m have names: "set (map fst (entries (h m))) = set (map fst (entries (h (hd models))))"
    and all: "\<forall>(k, t) \<in> set (state_dict (h m)).
           wf_tensor t \<and>
           (case map_of (state_dict (h (hd models))) k of
              None \<Rightarrow> False
            | Some t0 \<Rightarrow> shape t = shape t0)"
    by (auto simp: same_schema_def)
  from k names have "k \<in> set (map fst (state_dict (h m)))" by (simp add: state_dict_keys)
  then obtain t where t: "map_of (state_dict (h m)) k = Some t"
    by (metis domD dom_map_of_conv_image_fst set_map)
  then have "(k, t) \<in> set (state_dict (h m))" by (rule map_of_SomeD)
  with all have "wf_tensor t"
    and "case map_of (state_dict (h (hd models))) k of
              None \<Rightarrow> False
            | Some t0 \<Rightarrow> shape t = shape t0"
    by auto
  with t show ?thesis by (auto split: option.splits)
qed

lemma federated_averaging_same_schema:
  fixes lib :: library
  assumes ne: "models \<noteq> []" and ss: "same_schema h models"
  defines "mean \<equiv> \<lambda>k.
            \<lparr>dtype = Float32,
             shape = shape (the (map_of (state_dict (h (hd models))) k)),
             data = map (\<lambda>i. mean_float32 lib
                            (map (\<lambda>m. data (float_tensor lib (the (map_of (state_dict (h m)) k))) ! i)
                               models))
                      [0..<length (data (the (map_of (state_dict (h (hd models))) k)))]\<rparr>"
  shows "\<exists>h'. federated_averaging lib h models = (Inr (hd models), h') \<and>
           (\<forall>a. a \<noteq> hd models \<longrightarrow> h' a = h a) \<and>
           entries (h' (hd models)) = entries (h (hd models)) \<and>
           (\<forall>k s ps1 ps2.
              entries (h (hd models)) = ps1 @ (k, s) # ps2 \<and> s \<notin> snd ` set ps2 \<longrightarrow>
              storage (h' (hd models)) s =
                (storage (h (hd models)) s)\<lparr>data :=
                   map (copy_elem lib Float32 (dtype (storage (h (hd models)) s)))
                     (data (mean k))\<rparr>)"
proof -
  let ?m0 = "hd models"
  let ?own = "state_dict (h ?m0)"
  let ?keys = "map fst ?own"
  let ?sd = "fold (\<lambda>k. AList.update k (mean k)) ?keys ?own"
  have m0: "?m0 \<in> set models" using ne by simp
  have dist: "distinct (map fst (entries (h ?m0)))" using ss m0 by (simp add: same_schema_def)
  have keys_eq: "?keys = map fst (entries (h ?m0))" by (rule state_dict_keys)
  have cond: "\<exists>t. map_of (state_dict (h m)) k = Some t \<and>
               shape t = shape (the (map_of ?own k))"
    if "k \<in> set ?keys" "m \<in> set models" for k m
  proof -
    from that(1) have "k \<in> set (map fst (entries (h ?m0)))" by (simp add: keys_eq)
    from same_schema_lookup [OF ss that(2) this] show ?thesis by auto
  qed
  have avg: "average_keys lib h models ?keys ?own = Inr ?sd"
    unfolding mean_def by (rule average_keys_total [OF ne]) (rule cond)
  have keys_sd: "map fst ?sd = ?keys"
    by (rule fold_update_keys) simp
  have val_sd: "map_of ?sd k = Some (mean k)" if "k \<in> set ?keys" for k
    using that by (simp add: fold_update_map_of)
  have entry: "map_of ?own k = Some (storage (h ?m0) s)" if "(k, s) \<in> set (entries (h ?m0))" for k s
    using dist that by (simp add: state_dict_map_of)
  have pre: "\<forall>(k, s) \<in> set (entries (h ?m0)).
               \<exists>input. map_of ?sd k = Some input \<and> shape input = shape (storage (h ?m0) s)"
  proof (clarify)
    fix k s assume ks: "(k, s) \<in> set (entries (h ?m0))"
    then have "k \<in> set ?keys" by (force simp: keys_eq)
    from val_sd [OF this] entry [OF ks]
    show "\<exists>input. map_of ?sd k = Some input \<and> shape input = shape (storage (h ?m0) s)"
      by (simp add: mean_def)
  qed
  from load_entries_last [OF pre, of lib False] obtain st' where
    st': "load_entries lib ?sd (entries (h ?m0)) (False, storage (h ?m0)) = (False, st')"
         "\<forall>k s ps1 ps2. entries (h ?m0) = ps1 @ (k, s) # ps2 \<and> s \<notin> snd ` set ps2 \<longrightarrow>
              st' s = (storage (h ?m0) s)\<lparr>data :=
                 map (copy_elem lib (dtype (the (map_of ?sd k))) (dtype (storage (h ?m0) s)))
                   (data (the (map_of ?sd k)))\<rparr>"
    by blast
  have "map fst ?sd = map fst (entries (h ?m0))" using keys_sd keys_eq by simp
  then have no_unexpected:
    "\<not> (\<exists>k \<in> set (map fst ?sd). k \<notin> set (map fst (entries (h ?m0))))"
    by (simp only: simp_thms bex_simps not_not ball_simps) blast
  let ?h' = "h(?m0 := (h ?m0)\<lparr>storage := st'\<rparr>)"
  have ld: "load_state_dict lib h ?m0 ?sd = (None, ?h')"
    unfolding load_state_dict_def Let_def st'(1) using no_unexpected by simp
  have run: "federated_averaging lib h models = (Inr ?m0, ?h')"
    unfolding federated_averaging_def Let_def avg sum.case ld using ne by simp
  have vals: "\<forall>k s ps1 ps2.
              entries (h ?m0) = ps1 @ (k, s) # ps2 \<and> s \<notin> snd ` set ps2 \<longrightarrow>
              storage (?h' ?m0) s =
                (storage (h ?m0) s)\<lparr>data :=
                   map (copy_elem lib Float32 (dtype (storage (h ?m0) s))) (data (mean k))\<rparr>"
  proof (intro allI impI)
    fix k s ps1 ps2
    assume sp: "entries (h ?m0) = ps1 @ (k, s) # ps2 \<and> s \<notin> snd ` set ps2"
    then have "(k, s) \<in> set (entries (h ?m0))" by simp
    then have "k \<in> set ?keys" by (force simp: keys_eq)
    from val_sd [OF this] have v: "the (map_of ?sd k) = mean k" by simp
    have d: "dtype (mean k) = Float32" by (simp add: mean_def)
    from st'(2) sp have "st' s = (storage (h ?m0) s)\<lparr>data :=
                 map (copy_elem lib (dtype (the (map_of ?sd k))) (dtype (storage (h ?m0) s)))
                   (data (the (map_of ?sd k)))\<rparr>"
      by blast
    then show "storage (?h' ?m0) s =
                (storage (h ?m0) s)\<lparr>data :=
                   map (copy_elem lib Float32 (dtype (storage (h ?m0) s))) (data (mean k))\<rparr>"
      by (simp add: v d)
  qed
  have "\<forall>a. a \<noteq> ?m0 \<longrightarrow> ?h' a = h a" by simp
  moreover have "entries (?h' ?m0) = entries (h ?m0)" by simp
  ultimately show ?thesis using run vals by blast
qed

lemma federated_averaging_untied:
  fixes lib :: library
  assumes ne: "models \<noteq> []" and ss: "same_schema h models"
    and untied: "distinct (map snd (entries (h (hd models))))"
  shows "\<exists>h'. federated_averaging lib h models = (Inr (hd models), h') \<and>
           (\<forall>a. a \<noteq> hd models \<longrightarrow> h' a = h a) \<and>
           entries (h' (hd models)) = entries (h (hd models)) \<and>
           (\<forall>(k, s) \<in> set (entries (h (hd models))).
              storage (h' (hd models)) s =
                (storage (h (hd models)) s)\<lparr>data :=
                   map (copy_elem lib Float32 (dtype (storage (h (hd models)) s)))
                     (data \<lparr>dtype = Float32,
             shape = shape (the (map_of (state_dict (h (hd models))) k)),
             data = map (\<lambda>i. mean_float32 lib
                            (map (\<lambda>m. data (float_tensor lib (the (map_of (state_dict (h m)) k))) ! i)
                               models))
                      [0..<length (data (the (map_of (state_dict (h (hd models))) k)))]\<rparr>)\<rparr>)"
proof -
  let ?m0 = "hd models"
  let ?mean = "\<lambda>k. \<lparr>dtype = Float32,
             shape = shape (the (map_of (state_dict (h ?m0)) k)),
             data = map (\<lambda>i. mean_float32 lib
                            (map (\<lambda>m. data (float_tensor lib (the (map_of (state_dict (h m)) k))) ! i)
                               models))
                      [0..<length (data (the (map_of (state_dict (h ?m0)) k)))]\<rparr>"
  from federated_averaging_same_schema [OF ne ss, of lib] obtain h' where
    run: "federated_averaging lib h models = (Inr ?m0, h')" and
    frame: "\<forall>a. a \<noteq> ?m0 \<longrightarrow> h' a = h a" and
    ent: "entries (h' ?m0) = entries (h ?m0)" and
    vals: "\<forall>k s ps1 ps2.
              entries (h ?m0) = ps1 @ (k, s) # ps2 \<and> s \<notin> snd ` set ps2 \<longrightarrow>
              storage (h' ?m0) s =
                (storage (h ?m0) s)\<lparr>data :=
                   map (copy_elem lib Float32 (dtype (storage (h ?m0) s))) (data (?mean k))\<rparr>"
    by blast
  have "\<forall>(k, s) \<in> set (entries (h ?m0)).
              storage (h' ?m0) s =
                (storage (h ?m0) s)\<lparr>data :=
                   map (copy_elem lib Float32 (dtype (storage (h ?m0) s))) (data (?mean k))\<rparr>"
  proof (clarify)
    fix k s assume "(k, s) \<in> set (entries (h ?m0))"
    then obtain ps1 ps2 where sp: "entries (h ?m0) = ps1 @ (k, s) # ps2"
      by (auto dest: split_list)
    with untied have "s \<notin> snd ` set ps2" by auto
    with vals sp show "storage (h' ?m0) s =
                (storage (h ?m0) s)\<lparr>data :=
                   map (copy_elem lib Float32 (dtype (storage (h ?m0) s))) (data (?mean k))\<rparr>"
      by blast
  qed
  with run frame ent show ?thesis by blast
qed

lemma ex_store_simps:
  "state_dict (module_of [(k, t)]) = [(k, t)]"
  "entries (module_of [(k, t)]) = [(k, 0)]"
  "storage (module_of [(k, t)]) 0 = t"
  by (simp_all add: state_dict_def module_of_def)

lemma exact_mean2:
  "mean_float32 exact_arithmetic [Finite a, Finite b] = Finite ((a + b) / 2)"
  by (simp add: exact_arithmetic_def)

lemma average_example_run:
  "\<exists>h'. federated_averaging exact_arithmetic
          ((\<lambda>_. module_of [])(0 := module_of [(''w'', vec Float32 [1, 3])],
                               1 := module_of [(''w'', vec Float32 [3, 5])])) [0, 1]
          = (Inr 0, h') \<and>
        state_dict (h' 0) = [(''w'', vec Float32 [2, 4])] \<and>
        h' 1 = module_of [(''w'', vec Float32 [3, 5])]"
proof -
  let ?h = "(\<lambda>_. module_of [])(0 := module_of [(''w'', vec Float32 [1, 3])],
                               1 := module_of [(''w'', vec Float32 [3, 5])]) :: heap"
  have ne: "[0, 1 :: nat] \<noteq> []" by simp
  have ss: "same_schema ?h [0, 1]"
    by (simp add: same_schema_def ex_store_simps vec_def wf_tensor_def)
  have untied: "distinct (map snd (entries (?h (hd [0, 1]))))"
    by (simp add: ex_store_simps)
  from federated_averaging_untied [OF ne ss untied, of exact_arithmetic] obtain h' where
    run: "federated_averaging exact_arithmetic ?h [0, 1] = (Inr (hd [0, 1]), h')" and
    frame: "\<forall>a. a \<noteq> hd [0, 1] \<longrightarrow> h' a = ?h a" and
    ent: "entries (h' (hd [0, 1])) = entries (?h (hd [0, 1]))" and
    vals: "\<forall>(k, s) \<in> set (entries (?h (hd [0, 1]))).
              storage (h' (hd [0, 1])) s =
                (storage (?h (hd [0, 1])) s)\<lparr>data :=
                   map (copy_elem exact_arithmetic Float32 (dtype (storage (?h (hd [0, 1])) s)))
                     (data \<lparr>dtype = Float32,
             shape = shape (the (map_of (state_dict (?h (hd [0, 1]))) k)),
             data = map (\<lambda>i. mean_float32 exact_arithmetic
                            (map (\<lambda>m. data (float_tensor exact_arithmetic (the (map_of (state_dict (?h m)) k))) ! i)
                               [0, 1]))
                      [0..<length (data (the (map_of (state_dict (?h (hd [0, 1]))) k)))]\<rparr>)\<rparr>"
    by blast
  from ent have ent0: "entries (h' 0) = [(''w'', 0)]" by (simp add: ex_store_simps)
  from vals have "storage (h' 0) 0 = vec Float32 [2, 4]"
    by (simp add: ex_store_simps vec_def float_tensor_def float_elem_def copy_elem_def exact_mean2)
  with ent0 have sd: "state_dict (h' 0) = [(''w'', vec Float32 [2, 4])]"
    by (simp add: state_dict_def)
  from frame have "h' 1 = module_of [(''w'', vec Float32 [3, 5])]" by simp
  with run sd show ?thesis by auto
qed


subsection \<open>Claims\<close>

text \<open>
  C1, as amended. Averaging does not build a new module. Whenever it returns, the sequence
  of inputs was non-empty, the returned reference is the first input module itself, into
  which \<open>load_state_dict\<close> has written, and every module other than the first input
  is left exactly as it was.
\<close>

theorem average_overwrites_first_input:
  assumes "federated_averaging lib h models = (Inr r, h')"
  shows "models \<noteq> [] \<and> r = hd models \<and> (\<forall>a. a \<noteq> hd models \<longrightarrow> h' a = h a)"
proof -
  let ?sd0 = "state_dict (h (hd models))"
  let ?keys = "average_keys lib h models (map fst ?sd0) ?sd0"
  from assms have ne: "models \<noteq> []"
    by (auto simp: federated_averaging_def)
  with assms have run:
    "(case ?keys of Inl e \<Rightarrow> (Inl e, h)
      | Inr sd \<Rightarrow> (case load_state_dict lib h (hd models) sd of
                    (Some e, h'') \<Rightarrow> (Inl e, h'') | (None, h'') \<Rightarrow> (Inr (hd models), h'')))
       = (Inr r, h')"
    by (simp add: federated_averaging_def Let_def)
  then obtain sd where sd: "?keys = Inr sd"
    by (cases ?keys) simp_all
  obtain res h'' where ld: "load_state_dict lib h (hd models) sd = (res, h'')"
    by (cases "load_state_dict lib h (hd models) sd")
  with run sd have eq: "h'' = h'" "r = hd models"
    by (cases res; simp)+
  from ld eq have "\<forall>a. a \<noteq> hd models \<longrightarrow> h' a = h a"
    by (auto dest: load_state_dict_frame)
  with ne eq show ?thesis by simp
qed

text \<open>
  The amended statement at two modules with one tensor each: the call returns reference
  \<open>0\<close>, the first input, and module \<open>1\<close> still holds \<open>[3, 5]\<close>.
\<close>

theorem average_overwrites_first_input_witness:
  "\<exists>h'. federated_averaging exact_arithmetic
          ((\<lambda>_. module_of [])(0 := module_of [(''w'', vec Float32 [1, 3])],
                               1 := module_of [(''w'', vec Float32 [3, 5])])) [0, 1]
          = (Inr 0, h') \<and> h' 1 = module_of [(''w'', vec Float32 [3, 5])]"
proof -
  let ?h = "(\<lambda>_. module_of [])(0 := module_of [(''w'', vec Float32 [1, 3])],
                               1 := module_of [(''w'', vec Float32 [3, 5])]) :: heap"
  from average_example_run obtain h' where
    run: "federated_averaging exact_arithmetic ?h [0, 1] = (Inr 0, h')"
    by blast
  from average_overwrites_first_input [OF run] have "h' 1 = ?h 1" by simp
  with run show ?thesis by auto
qed

text \<open>
  C1 as stated fails: on the same input the returned reference is the input \<open>0\<close>, and
  the tensor of that input module has changed from \<open>[1, 3]\<close> to \<open>[2, 4]\<close>.
\<close>

theorem average_mutates_first_input:
  "\<exists>h'. federated_averaging exact_arithmetic
          ((\<lambda>_. module_of [])(0 := module_of [(''w'', vec Float32 [1, 3])],
                               1 := module_of [(''w'', vec Float32 [3, 5])])) [0, 1]
          = (Inr 0, h') \<and>
        0 \<in> set [0, 1 :: nat] \<and>
        state_dict (((\<lambda>_. module_of [])(0 := module_of [(''w'', vec Float32 [1, 3])],
                               1 := module_of [(''w'', vec Float32 [3, 5])])) (0 :: nat))
          = [(''w'', vec Float32 [1, 3])] \<and>
        state_dict (h' 0) = [(''w'', vec Float32 [2, 4])]"
  using average_example_run by (auto simp: ex_store_simps)




text \<open>
  C7. Averaging an empty sequence of modules fails: the guard \<open>if not models\<close> raises
  \<open>ValueError("No models to average")\<close>, the error the specification calls
  EmptyInputError, whatever the store holds, and the store is left as it was.
\<close>

theorem average_empty_fails:
  "federated_averaging lib h [] = (Inl (ValueError ''No models to average''), h)"
  by (simp add: federated_averaging_def)

section \<open>Differential privacy: results\<close>

subsection \<open>Auxiliary facts\<close>

text \<open>The substring test is the one of Python: some prefix and suffix surround \<open>sub\<close>.\<close>

lemma starts_with_iff: "starts_with sub s \<longleftrightarrow> (\<exists>ss. s = sub @ ss)"
  by (induction sub s rule: starts_with.induct) auto

lemma str_contains_iff: "str_contains sub s \<longleftrightarrow> (\<exists>ps ss. s = ps @ sub @ ss)"
proof (induction s)
  case Nil
  then show ?case by auto
next
  case (Cons c cs)
  show ?case
  proof
    assume "str_contains sub (c # cs)"
    then consider "starts_with sub (c # cs)" | "str_contains sub cs" by auto
    then show "\<exists>ps ss. c # cs = ps @ sub @ ss"
    proof cases
      case 1
      then obtain ss where "c # cs = sub @ ss" by (auto simp: starts_with_iff)
      then have "c # cs = [] @ sub @ ss" by simp
      then show ?thesis by blast
    next
      case 2
      with Cons.IH obtain ps ss where "cs = ps @ sub @ ss" by blast
      then have "c # cs = (c # ps) @ sub @ ss" by simp
      then show ?thesis by blast
    qed
  next
    assume "\<exists>ps ss. c # cs = ps @ sub @ ss"
    then obtain ps ss where eq: "c # cs = ps @ sub @ ss" by blast
    show "str_contains sub (c # cs)"
    proof (cases ps)
      case Nil
      with eq have "starts_with sub (c # cs)" by (auto simp: starts_with_iff)
      then show ?thesis by simp
    next
      case (Cons p ps')
      with eq have "cs = ps' @ sub @ ss" by simp
      with Cons.IH have "str_contains sub cs" by blast
      then show ?thesis by simp
    qed
  qed
qed

lemma add_noise_simps:
  "dtype (add_noise lib randn c k t) = dtype t"
  "shape (add_noise lib randn c k t) = shape t"
  "length (data (add_noise lib randn c k t)) = length (data t)"
  "i < length (data t) \<Longrightarrow>
     data (add_noise lib randn c k t) ! i =
       add_elem lib (dtype t) (data t ! i) (mul_scalar lib (dtype t) (randn k i) c)"
  by (simp_all add: add_noise_def Let_def)

lemma foldl_add_noise_dtype:
  "dtype (foldl (\<lambda>t k. add_noise lib randn c k t) t ks) = dtype t"
  by (induction ks arbitrary: t) (simp_all add: add_noise_simps)

lemma dp_keys_result:
  fixes lib :: library and randn :: "string \<Rightarrow> nat \<Rightarrow> scalar" and epsilon :: real
  assumes eps: "epsilon \<noteq> 0"
  defines "P \<equiv> \<lambda>t k. add_noise lib randn (float_div lib 1 epsilon) k t"
  shows "set keys \<subseteq> fst ` set (entries (h model)) \<Longrightarrow>
    (\<forall>k s. k \<in> set keys \<and> noised_name k \<and> map_of (entries (h model)) k = Some s \<longrightarrow>
        is_floating (dtype (storage (h model) s))) \<Longrightarrow>
    dp_keys lib randn epsilon model keys h =
      (None, h(model := (h model)\<lparr>storage := \<lambda>s.
          foldl P (storage (h model) s)
            (filter (\<lambda>k. noised_name k \<and> map_of (entries (h model)) k = Some s) keys)\<rparr>))"
proof (induction keys arbitrary: h)
  case Nil
  have "(h model)\<lparr>storage := \<lambda>s. storage (h model) s\<rparr> = h model" by simp
  then show ?case by simp
next
  case (Cons key keys)
  let ?m = "h model"
  have sub: "set keys \<subseteq> fst ` set (entries ?m)" using Cons.prems(1) by simp
  show ?case
  proof (cases "noised_name key")
    case False
    have fl: "\<forall>k s. k \<in> set keys \<and> noised_name k \<and> map_of (entries ?m) k = Some s \<longrightarrow>
        is_floating (dtype (storage ?m s))"
      using Cons.prems(2) by auto
    from False Cons.IH [of h, OF sub fl] show ?thesis by simp
  next
    case True
    from Cons.prems(1) obtain s0 where s0: "map_of (entries ?m) key = Some s0"
      by (metis domD dom_map_of_conv_image_fst list.set_intros(1) subsetD)
    with True Cons.prems(2) have fl0: "is_floating (dtype (storage ?m s0))" by auto
    define t1 where "t1 = P (storage ?m s0) key"
    define h1 where "h1 = h(model := ?m\<lparr>storage := (storage ?m)(s0 := t1)\<rparr>)"
    have h1_entries: "entries (h1 model) = entries ?m" by (simp add: h1_def)
    have h1_storage: "storage (h1 model) = (storage ?m)(s0 := t1)" by (simp add: h1_def)
    have step: "dp_keys lib randn epsilon model (key # keys) h =
                dp_keys lib randn epsilon model keys h1"
      using True eps s0 fl0 by (simp add: Let_def h1_def t1_def P_def)
    have dt: "dtype (storage (h1 model) s) = dtype (storage ?m s)" for s
      by (simp add: h1_storage t1_def P_def add_noise_simps)
    have sub1: "set keys \<subseteq> fst ` set (entries (h1 model))" using sub by (simp add: h1_entries)
    have fl1: "\<forall>k s. k \<in> set keys \<and> noised_name k \<and> map_of (entries (h1 model)) k = Some s \<longrightarrow>
        is_floating (dtype (storage (h1 model) s))"
      using Cons.prems(2) by (auto simp: h1_entries dt)
    have eq: "foldl P (storage (h1 model) s)
                (filter (\<lambda>k. noised_name k \<and> map_of (entries (h1 model)) k = Some s) keys) =
              foldl P (storage ?m s)
                (filter (\<lambda>k. noised_name k \<and> map_of (entries ?m) k = Some s) (key # keys))" for s
    proof (cases "s = s0")
      case True
      then show ?thesis
        using \<open>noised_name key\<close> s0 by (simp add: h1_entries h1_storage t1_def)
    next
      case False
      then show ?thesis
        using s0 by (simp add: h1_entries h1_storage)
    qed
    have "dp_keys lib randn epsilon model keys h1 =
      (None, h1(model := (h1 model)\<lparr>storage := \<lambda>s.
          foldl P (storage (h1 model) s)
            (filter (\<lambda>k. noised_name k \<and> map_of (entries (h1 model)) k = Some s) keys)\<rparr>))"
      by (rule Cons.IH [of h1, OF sub1 fl1])
    also have "h1(model := (h1 model)\<lparr>storage := \<lambda>s.
          foldl P (storage (h1 model) s)
            (filter (\<lambda>k. noised_name k \<and> map_of (entries (h1 model)) k = Some s) keys)\<rparr>) =
        h(model := ?m\<lparr>storage := \<lambda>s.
          foldl P (storage ?m s)
            (filter (\<lambda>k. noised_name k \<and> map_of (entries ?m) k = Some s) (key # keys))\<rparr>)"
      unfolding eq by (simp add: h1_def)
    finally show ?thesis using step by simp
  qed
qed

lemma dp_keys_zero:
  "dp_keys lib randn 0 model keys h =
     (if \<exists>k \<in> set keys. noised_name k
      then (Some (ZeroDivisionError ''float division by zero''), h) else (None, h))"
  by (induction keys) simp_all

lemma dp_keys_frame:
  "dp_keys lib randn epsilon model keys h = (r, h') \<Longrightarrow>
     (\<forall>a. a \<noteq> model \<longrightarrow> h' a = h a) \<and> entries (h' model) = entries (h model) \<and>
     (\<forall>s. dtype (storage (h' model) s) = dtype (storage (h model) s))"
proof (induction keys arbitrary: h)
  case Nil
  then show ?case by simp
next
  case (Cons key keys)
  show ?case
  proof (cases "noised_name key \<and> epsilon \<noteq> 0 \<and>
      (\<exists>s. map_of (entries (h model)) key = Some s \<and> is_floating (dtype (storage (h model) s)))")
    case True
    then obtain s where s: "map_of (entries (h model)) key = Some s"
      "is_floating (dtype (storage (h model) s))" by blast
    define h1 where "h1 = h(model := (h model)\<lparr>storage :=
        (storage (h model))(s := add_noise lib randn (float_div lib 1 epsilon) key
                                   (storage (h model) s))\<rparr>)"
    from True s Cons.prems have "dp_keys lib randn epsilon model keys h1 = (r, h')"
      by (simp add: Let_def h1_def)
    from Cons.IH [OF this] show ?thesis
      by (auto simp: h1_def add_noise_simps)
  next
    case False
    show ?thesis
    proof (cases "noised_name key")
      case nn: True
      with False Cons.prems have "h' = h"
        by (auto simp: Let_def split: if_splits option.splits)
      then show ?thesis by simp
    next
      case nn: False
      with Cons.prems have "dp_keys lib randn epsilon model keys h = (r, h')" by simp
      from Cons.IH [OF this] show ?thesis .
    qed
  qed
qed

lemma dp_keys_not_floating:
  assumes eps: "epsilon \<noteq> 0"
  shows "set keys \<subseteq> fst ` set (entries (h model)) \<Longrightarrow>
    (\<exists>k s. k \<in> set keys \<and> noised_name k \<and> map_of (entries (h model)) k = Some s \<and>
        \<not> is_floating (dtype (storage (h model) s))) \<Longrightarrow>
    fst (dp_keys lib randn epsilon model keys h) =
      Some (RuntimeError ''normal_kernel_cpu not implemented for Long'')"
proof (induction keys arbitrary: h)
  case Nil
  then show ?case by simp
next
  case (Cons key keys)
  from Cons.prems(1) obtain s0 where s0: "map_of (entries (h model)) key = Some s0"
    by (metis domD dom_map_of_conv_image_fst list.set_intros(1) subsetD)
  show ?case
  proof (cases "noised_name key \<and> \<not> is_floating (dtype (storage (h model) s0))")
    case True
    with eps s0 show ?thesis by (simp add: Let_def)
  next
    case False
    from Cons.prems(2) obtain k s where
      bad: "k \<in> set (key # keys)" "noised_name k" "map_of (entries (h model)) k = Some s"
           "\<not> is_floating (dtype (storage (h model) s))"
      by blast
    with False s0 have "k \<noteq> key" by auto
    with bad(1) have kin: "k \<in> set keys" by simp
    have sub: "set keys \<subseteq> fst ` set (entries (h model))" using Cons.prems(1) by simp
    show ?thesis
    proof (cases "noised_name key")
      case nn: False
      have ex: "\<exists>k s. k \<in> set keys \<and> noised_name k \<and> map_of (entries (h model)) k = Some s \<and>
        \<not> is_floating (dtype (storage (h model) s))"
        using kin bad by blast
      from nn Cons.IH [of h, OF sub ex] show ?thesis by simp
    next
      case nn: True
      with False have fl0: "is_floating (dtype (storage (h model) s0))" by simp
      define h1 where "h1 = h(model := (h model)\<lparr>storage :=
        (storage (h model))(s0 := add_noise lib randn (float_div lib 1 epsilon) key
                                   (storage (h model) s0))\<rparr>)"
      have step: "dp_keys lib randn epsilon model (key # keys) h =
                  dp_keys lib randn epsilon model keys h1"
        using nn eps s0 fl0 by (simp add: Let_def h1_def)
      have e1: "entries (h1 model) = entries (h model)" by (simp add: h1_def)
      have d1: "dtype (storage (h1 model) s') = dtype (storage (h model) s')" for s'
        by (simp add: h1_def add_noise_simps)
      have sub1: "set keys \<subseteq> fst ` set (entries (h1 model))" using sub by (simp add: e1)
      have ex1: "\<exists>k s. k \<in> set keys \<and> noised_name k \<and> map_of (entries (h1 model)) k = Some s \<and>
        \<not> is_floating (dtype (storage (h1 model) s))"
        using kin bad by (auto simp: e1 d1)
      from Cons.IH [of h1, OF sub1 ex1] step show ?thesis by simp
    qed
  qed
qed

lemma load_entries_self:
  "\<forall>(k, s) \<in> set ps. map_of sd k = Some (st s) \<Longrightarrow>
     load_entries lib sd ps (err, st) = (err, st)"
proof (induction ps)
  case Nil
  then show ?case by simp
next
  case (Cons p ps)
  obtain k s where p: "p = (k, s)" by (cases p)
  with Cons.prems have inp: "map_of sd k = Some (st s)" by simp
  have same: "st(s := (st s)\<lparr>data := map (copy_elem lib (dtype (st s)) (dtype (st s))) (data (st s))\<rparr>) = st"
  proof -
    have c: "copy_elem lib (dtype (st s)) (dtype (st s)) = (\<lambda>v. v)"
      by (rule ext) (simp add: copy_elem_def)
    show ?thesis by (simp add: c)
  qed
  from Cons.prems have "\<forall>(k, s) \<in> set ps. map_of sd k = Some (st s)" by simp
  from Cons.IH [OF this] show ?case by (simp add: p inp same)
qed

lemma load_state_dict_self:
  assumes "distinct (map fst (entries (h a)))"
  shows "load_state_dict lib h a (state_dict (h a)) = (None, h)"
proof -
  have "\<forall>(k, s) \<in> set (entries (h a)). map_of (state_dict (h a)) k = Some (storage (h a) s)"
    using assms by (auto simp: state_dict_map_of)
  then have le: "load_entries lib (state_dict (h a)) (entries (h a)) (False, storage (h a))
                 = (False, storage (h a))"
    by (rule load_entries_self)
  have none: "\<not> (\<exists>k \<in> set (map fst (state_dict (h a))). k \<notin> set (map fst (entries (h a))))"
    by (simp add: state_dict_keys)
  have "h(a := (h a)\<lparr>storage := storage (h a)\<rparr>) = h" by simp
  then show ?thesis
    unfolding load_state_dict_def Let_def le using none by simp
qed


lemma apply_differential_privacy_result:
  fixes lib :: library and randn :: "string \<Rightarrow> nat \<Rightarrow> scalar" and epsilon :: real
  assumes eps: "epsilon \<noteq> 0" and dist: "distinct (map fst (entries (h model)))"
    and fl: "\<forall>(k, s) \<in> set (entries (h model)).
               noised_name k \<longrightarrow> is_floating (dtype (storage (h model) s))"
  shows "apply_differential_privacy lib randn h model epsilon =
     (Inr model, h(model := (h model)\<lparr>storage := \<lambda>s.
          foldl (\<lambda>t k. add_noise lib randn (float_div lib 1 epsilon) k t) (storage (h model) s)
            (filter (\<lambda>k. noised_name k \<and> (k, s) \<in> set (entries (h model)))
               (map fst (entries (h model))))\<rparr>))"
proof -
  let ?P = "\<lambda>t k. add_noise lib randn (float_div lib 1 epsilon) k t"
  let ?keys = "map fst (entries (h model))"
  have iff: "map_of (entries (h model)) k = Some s \<longleftrightarrow> (k, s) \<in> set (entries (h model))" for k s
    using dist by (simp add: map_of_eq_Some_iff)
  let ?h1 = "h(model := (h model)\<lparr>storage := \<lambda>s.
          foldl ?P (storage (h model) s)
            (filter (\<lambda>k. noised_name k \<and> map_of (entries (h model)) k = Some s) ?keys)\<rparr>)"
  have sub: "set ?keys \<subseteq> fst ` set (entries (h model))" by simp
  have fl': "\<forall>k s. k \<in> set ?keys \<and> noised_name k \<and> map_of (entries (h model)) k = Some s \<longrightarrow>
        is_floating (dtype (storage (h model) s))"
    using fl by (auto simp: iff)
  have loop: "dp_keys lib randn epsilon model ?keys h = (None, ?h1)"
    by (rule dp_keys_result [of epsilon ?keys h model lib randn, OF eps sub fl'])
  have "distinct (map fst (entries (?h1 model)))" using dist by simp
  then have ld: "load_state_dict lib ?h1 model (state_dict (?h1 model)) = (None, ?h1)"
    by (rule load_state_dict_self [of ?h1 model])
  have "apply_differential_privacy lib randn h model epsilon = (Inr model, ?h1)"
    unfolding apply_differential_privacy_def loop prod.case option.case ld by (rule refl)
  then show ?thesis by (simp only: iff)
qed

lemma apply_differential_privacy_zero:
  assumes dist: "distinct (map fst (entries (h model)))"
  shows "apply_differential_privacy lib randn h model 0 =
     (if \<exists>k \<in> fst ` set (entries (h model)). noised_name k
      then (Inl (ZeroDivisionError ''float division by zero''), h) else (Inr model, h))"
  unfolding apply_differential_privacy_def dp_keys_zero
  by (simp add: load_state_dict_self [of h model, OF dist])

lemma apply_differential_privacy_not_floating:
  assumes eps: "epsilon \<noteq> 0"
    and bad: "\<exists>(k, s) \<in> set (entries (h model)).
               noised_name k \<and> \<not> is_floating (dtype (storage (h model) s))"
    and dist: "distinct (map fst (entries (h model)))"
  shows "\<exists>h'. apply_differential_privacy lib randn h model epsilon =
           (Inl (RuntimeError ''normal_kernel_cpu not implemented for Long''), h') \<and>
           (\<forall>a. a \<noteq> model \<longrightarrow> h' a = h a)"
proof -
  let ?keys = "map fst (entries (h model))"
  have sub: "set ?keys \<subseteq> fst ` set (entries (h model))" by simp
  from bad obtain k s where ks: "(k, s) \<in> set (entries (h model))" "noised_name k"
    "\<not> is_floating (dtype (storage (h model) s))" by auto
  from ks(1) dist have "map_of (entries (h model)) k = Some s" by simp
  moreover from ks(1) have "k \<in> set ?keys" by force
  ultimately have ex: "\<exists>k s. k \<in> set ?keys \<and> noised_name k \<and>
        map_of (entries (h model)) k = Some s \<and> \<not> is_floating (dtype (storage (h model) s))"
    using ks by blast
  obtain r h' where run: "dp_keys lib randn epsilon model ?keys h = (r, h')"
    by (cases "dp_keys lib randn epsilon model ?keys h")
  from dp_keys_not_floating [of epsilon ?keys h model lib randn, OF eps sub ex] run
  have r: "r = Some (RuntimeError ''normal_kernel_cpu not implemented for Long'')" by simp
  from dp_keys_frame [OF run] have "\<forall>a. a \<noteq> model \<longrightarrow> h' a = h a" by simp
  moreover have "apply_differential_privacy lib randn h model epsilon =
           (Inl (RuntimeError ''normal_kernel_cpu not implemented for Long''), h')"
    unfolding apply_differential_privacy_def run r by simp
  ultimately show ?thesis by blast
qed

subsection \<open>Claims\<close>




text \<open>
  C4, as amended. The function does not validate epsilon. With a negative epsilon it
  returns the module when its tensors with \<open>weight\<close> or \<open>bias\<close> in the name are of
  floats, and otherwise fails with the \<open>RuntimeError\<close> of \<open>torch.randn_like\<close> on an
  integer tensor, exactly as with a positive epsilon. With epsilon zero the division
  \<open>sensitivity / epsilon\<close> raises \<open>ZeroDivisionError\<close> when some tensor name of the
  module contains \<open>weight\<close> or \<open>bias\<close>, before anything is written; when none does,
  the call returns the module unchanged.
\<close>

theorem privacy_nonpositive_epsilon:
  assumes "distinct (map fst (entries (h model)))"
  shows "(epsilon < 0 \<and>
          (\<forall>(k, s) \<in> set (entries (h model)).
              noised_name k \<longrightarrow> is_floating (dtype (storage (h model) s))) \<longrightarrow>
            (\<exists>h'. apply_differential_privacy lib randn h model epsilon = (Inr model, h'))) \<and>
         (epsilon < 0 \<and>
          (\<exists>(k, s) \<in> set (entries (h model)).
              noised_name k \<and> \<not> is_floating (dtype (storage (h model) s))) \<longrightarrow>
            (\<exists>h'. apply_differential_privacy lib randn h model epsilon =
                    (Inl (RuntimeError ''normal_kernel_cpu not implemented for Long''), h'))) \<and>
         (epsilon = 0 \<longrightarrow>
            apply_differential_privacy lib randn h model epsilon =
              (if \<exists>k \<in> fst ` set (entries (h model)). noised_name k
               then (Inl (ZeroDivisionError ''float division by zero''), h)
               else (Inr model, h)))"
proof (intro conjI impI)
  assume a: "epsilon < 0 \<and>
          (\<forall>(k, s) \<in> set (entries (h model)).
              noised_name k \<longrightarrow> is_floating (dtype (storage (h model) s)))"
  then have ne: "epsilon \<noteq> 0" by simp
  from a have fl: "\<forall>(k, s) \<in> set (entries (h model)).
              noised_name k \<longrightarrow> is_floating (dtype (storage (h model) s))" by (rule conjunct2)
  from apply_differential_privacy_result [of epsilon h model lib randn, OF ne assms fl]
  show "\<exists>h'. apply_differential_privacy lib randn h model epsilon = (Inr model, h')"
    by simp
next
  assume a: "epsilon < 0 \<and>
          (\<exists>(k, s) \<in> set (entries (h model)).
              noised_name k \<and> \<not> is_floating (dtype (storage (h model) s)))"
  then have ne: "epsilon \<noteq> 0" by simp
  from a have bad: "\<exists>(k, s) \<in> set (entries (h model)).
              noised_name k \<and> \<not> is_floating (dtype (storage (h model) s))" by (rule conjunct2)
  from apply_differential_privacy_not_floating [of epsilon h model lib randn, OF ne bad assms]
  show "\<exists>h'. apply_differential_privacy lib randn h model epsilon =
                    (Inl (RuntimeError ''normal_kernel_cpu not implemented for Long''), h')"
    by blast
next
  assume "epsilon = 0"
  then show "apply_differential_privacy lib randn h model epsilon =
              (if \<exists>k \<in> fst ` set (entries (h model)). noised_name k
               then (Inl (ZeroDivisionError ''float division by zero''), h)
               else (Inr model, h))"
    using apply_differential_privacy_zero [of h model lib randn, OF assms] by simp
qed

text \<open>
  The amended statement at a module with one \<open>weight\<close> tensor: with epsilon \<open>-1\<close>
  the call returns when the tensor is of floats and raises \<open>RuntimeError\<close> when it is
  of integers; with epsilon \<open>0\<close> it raises \<open>ZeroDivisionError\<close> and the store is as
  before.
\<close>

theorem privacy_nonpositive_epsilon_witness:
  "(\<exists>h'. apply_differential_privacy exact_arithmetic (\<lambda>k i. Finite 1)
           ((\<lambda>_. module_of [])(0 := module_of [(''weight'', vec Float32 [1, 2])])) 0 (- 1)
           = (Inr 0, h')) \<and>
   (\<exists>h'. apply_differential_privacy exact_arithmetic (\<lambda>k i. Finite 1)
           ((\<lambda>_. module_of [])(0 := module_of [(''weight'', vec Int64 [1, 2])])) 0 (- 1)
           = (Inl (RuntimeError ''normal_kernel_cpu not implemented for Long''), h')) \<and>
   apply_differential_privacy exact_arithmetic (\<lambda>k i. Finite 1)
     ((\<lambda>_. module_of [])(0 := module_of [(''weight'', vec Float32 [1, 2])])) 0 0
     = (Inl (ZeroDivisionError ''float division by zero''),
        (\<lambda>_. module_of [])(0 := module_of [(''weight'', vec Float32 [1, 2])]))"
proof -
  let ?h = "(\<lambda>_. module_of [])(0 := module_of [(''weight'', vec Float32 [1, 2])]) :: heap"
  let ?g = "(\<lambda>_. module_of [])(0 := module_of [(''weight'', vec Int64 [1, 2])]) :: heap"
  let ?randn = "\<lambda>(k :: string) (i :: nat). Finite 1"
  have name: "noised_name ''weight''" by (simp add: noised_name_def)
  have dist: "distinct (map fst (entries (?h 0)))" "distinct (map fst (entries (?g 0)))"
    by (simp_all add: ex_store_simps)
  have ent: "entries (?h 0) = [(''weight'', 0)]" "entries (?g 0) = [(''weight'', 0)]"
    by (simp_all add: ex_store_simps)
  have fl: "\<forall>(k, s) \<in> set (entries (?h 0)).
              noised_name k \<longrightarrow> is_floating (dtype (storage (?h 0) s))"
    unfolding ent by (simp add: ex_store_simps vec_def)
  have bad: "\<exists>(k, s) \<in> set (entries (?g 0)).
              noised_name k \<and> \<not> is_floating (dtype (storage (?g 0) s))"
    unfolding ent by (simp add: ex_store_simps vec_def name)
  have some: "\<exists>k \<in> fst ` set (entries (?h 0)). noised_name k"
    unfolding ent by (simp add: name)
  have neg: "(- 1 :: real) < 0" by simp
  from privacy_nonpositive_epsilon [of ?h 0 "- 1" exact_arithmetic ?randn, OF dist(1)] neg fl
  have a: "\<exists>h'. apply_differential_privacy exact_arithmetic ?randn ?h 0 (- 1) = (Inr 0, h')"
    by blast
  from privacy_nonpositive_epsilon [of ?g 0 "- 1" exact_arithmetic ?randn, OF dist(2)] neg bad
  have b: "\<exists>h'. apply_differential_privacy exact_arithmetic ?randn ?g 0 (- 1)
           = (Inl (RuntimeError ''normal_kernel_cpu not implemented for Long''), h')"
    by blast
  from privacy_nonpositive_epsilon [of ?h 0 0 exact_arithmetic ?randn, OF dist(1)] some
  have c: "apply_differential_privacy exact_arithmetic ?randn ?h 0 0
     = (Inl (ZeroDivisionError ''float division by zero''), ?h)"
    by simp
  from a b c show ?thesis by (intro conjI)
qed

text \<open>
  C4 as stated fails: with epsilon \<open>-1\<close> and all draws equal to 1 the call returns the
  module, with \<open>weight\<close> changed from \<open>[1, 2]\<close> to \<open>[0, 1]\<close>.
\<close>

theorem privacy_negative_epsilon_returns:
  "\<exists>h'. apply_differential_privacy exact_arithmetic (\<lambda>k i. Finite 1)
          ((\<lambda>_. module_of [])(0 := module_of [(''weight'', vec Float32 [1, 2])])) 0 (- 1)
          = (Inr 0, h') \<and>
        state_dict (h' 0) = [(''weight'', vec Float32 [0, 1])]"
proof -
  let ?h = "(\<lambda>_. module_of [])(0 := module_of [(''weight'', vec Float32 [1, 2])]) :: heap"
  let ?randn = "\<lambda>(k :: string) (i :: nat). Finite 1"
  have name: "noised_name ''weight''" by (simp add: noised_name_def)
  have ent: "entries (?h 0) = [(''weight'', 0)]" by (simp add: ex_store_simps)
  have ne: "(- 1 :: real) \<noteq> 0" by simp
  have dist: "distinct (map fst (entries (?h 0)))" unfolding ent by simp
  have fl: "\<forall>(k, s) \<in> set (entries (?h 0)).
              noised_name k \<longrightarrow> is_floating (dtype (storage (?h 0) s))"
    unfolding ent by (simp add: ex_store_simps vec_def)
  let ?h' = "?h(0 := (?h 0)\<lparr>storage := \<lambda>s.
          foldl (\<lambda>t k. add_noise exact_arithmetic ?randn (float_div exact_arithmetic 1 (- 1)) k t)
            (storage (?h 0) s)
            (filter (\<lambda>k. noised_name k \<and> (k, s) \<in> set (entries (?h 0)))
               (map fst (entries (?h 0))))\<rparr>)"
  have run: "apply_differential_privacy exact_arithmetic ?randn ?h 0 (- 1) = (Inr 0, ?h')"
    by (rule apply_differential_privacy_result
          [of "- 1" ?h 0 exact_arithmetic ?randn, OF ne dist fl])
  have e': "entries (?h' 0) = [(''weight'', 0)]" by (simp add: ex_store_simps)
  have "storage (?h' 0) 0 =
      add_noise exact_arithmetic ?randn (float_div exact_arithmetic 1 (- 1)) ''weight''
        (vec Float32 [1, 2])"
    by (simp add: ex_store_simps name)
  also have "\<dots> = vec Float32 [0, 1]"
    by (simp add: add_noise_def exact_arithmetic_def vec_def)
  finally have s0: "storage (?h' 0) 0 = vec Float32 [0, 1]" .
  from e' s0 have "state_dict (?h' 0) = [(''weight'', vec Float32 [0, 1])]"
    unfolding state_dict_def by simp
  with run show ?thesis by blast
qed

section \<open>EnsembleModel: results\<close>

text \<open>
  C5. The claim describes what \<open>forward\<close> is written to do, and the code does not do it:
  for every ensemble, every input and whatever the member modules compute, the call
  raises \<open>AttributeError\<close> at \<open>self.modules.items()\<close>, before any member module is
  run, because \<open>self.modules\<close> is the method that \<open>nn.Module\<close> defines.
\<close>

theorem forward_raises_attribute_error:
  "forward pooler_output self x = Inl (AttributeError ''function object has no attribute items'')"
  by (simp add: forward_def getattr_def nn_Module_methods_def items_def)

text \<open>
  C6, as amended. Composing the empty table does not fail: it returns an ensemble with no
  member whose integration layer has \<open>0 * 768 = 0\<close> inputs and 768 outputs, whatever
  the initial values are.
\<close>

theorem compose_empty_returns:
  "\<exists>e. create_ensemble attrs init1 init2 ([] :: (string \<times> 'm) list) = Inr e \<and>
       modules e = [] \<and>
       in_features (integration_layer e) = 0 \<and>
       out_features (integration_layer e) = 768"
  by (simp add: create_ensemble_def EnsembleModel_init_def ModuleDict_init_def nn_Linear_def)

text \<open>
  C6 as stated fails: on the empty table, with all initial values zero, the result is an
  ensemble and not an exception.
\<close>

theorem compose_empty_no_error:
  "create_ensemble [''keys'', ''items'', ''values''] (\<lambda>i j. 0, \<lambda>i. 0) (\<lambda>i j. 0, \<lambda>i. 0)
     ([] :: (string \<times> nat) list)
     = Inr \<lparr>modules = [],
            integration_layer = nn_Linear (\<lambda>i j. 0, \<lambda>i. 0) 0 768,
            classifier = nn_Linear (\<lambda>i j. 0, \<lambda>i. 0) 768 2\<rparr>"
  by (simp add: create_ensemble_def EnsembleModel_init_def ModuleDict_init_def)

section \<open>ContinuousLearningPipeline: results\<close>

subsection \<open>Auxiliary facts\<close>

lemma try_body_eq:
  "try_body env s =
     (let pre = random_draws env (draws s); post = random_draws env (Suc (draws s));
          s5 = s\<lparr>draws := Suc (Suc (draws s)),
                  performance_history := performance_history s @ [pre]\<rparr>
      in if post > pre then
           (case deploy_updates env (trainer s) of
              Some e \<Rightarrow> (Inl e, emit [LogInfo ''Performance improved! Deploying updates...'',
                                DeployUpdates] s5)
            | None \<Rightarrow> (Inr (), emit [LogInfo ''Performance improved! Deploying updates...'',
                                DeployUpdates, Sleep 86400] s5))
         else (Inr (), emit [Sleep 86400] s5))"
  by (simp add: try_body_def collect_new_data_def evaluate_performance_def
      identify_improvement_targets_def emit_def Let_def split: option.splits)


lemma try_body_trainer: "trainer (snd (try_body env s)) = trainer s"
  by (simp add: try_body_eq Let_def emit_def split: option.splits)

lemma loop_iteration_trainer: "trainer (snd (loop_iteration env s)) = trainer s"
proof -
  obtain r s' where b: "try_body env s = (r, s')" by (cases "try_body env s")
  with try_body_trainer [of env s] have "trainer s' = trainer s" by simp
  with b show ?thesis
    by (cases r) (simp_all add: loop_iteration_def emit_def)
qed

lemma run_training_loop_trainer: "trainer (snd (run_training_loop env n s)) = trainer s"
proof (induction n arbitrary: s)
  case 0
  show ?case by simp
next
  case (Suc n)
  obtain r s' where it: "loop_iteration env s = (r, s')" by (cases "loop_iteration env s")
  with loop_iteration_trainer [of env s] have tr: "trainer s' = trainer s" by simp
  show ?case
  proof (cases r)
    case None
    with it Suc.IH [of s'] tr show ?thesis by simp
  next
    case (Some e)
    with it tr show ?thesis by simp
  qed
qed

lemma try_body_raises:
  "try_body env s = (Inl e, s1) \<Longrightarrow> deploy_updates env (trainer s) = Some e"
  by (auto simp: try_body_eq Let_def split: if_splits option.splits)

lemma try_body_returns:
  "try_body env s = (Inr u, s1) \<Longrightarrow> last (trace s1) = Sleep 86400"
  by (auto simp: try_body_eq Let_def emit_def split: if_splits option.splits)

lemma loop_iteration_draws:
  "draws (snd (loop_iteration env s)) = draws s + 2"
proof -
  obtain r s1 where b: "try_body env s = (r, s1)" by (cases "try_body env s")
  then have "draws s1 = draws s + 2"
    by (auto simp: try_body_eq Let_def emit_def split: if_splits option.splits)
  with b show ?thesis
    by (cases r) (simp_all add: loop_iteration_def emit_def)
qed

lemma loop_iteration_continues:
  assumes "\<forall>t e. deploy_updates env t = Some e \<longrightarrow> is_Exception e"
  shows "fst (loop_iteration env s) = None"
proof -
  obtain r s1 where b: "try_body env s = (r, s1)" by (cases "try_body env s")
  show ?thesis
  proof (cases r)
    case (Inr u)
    with b show ?thesis by (simp add: loop_iteration_def)
  next
    case (Inl e)
    with b have "deploy_updates env (trainer s) = Some e" by (simp add: try_body_raises)
    with assms have "is_Exception e" by blast
    with b Inl show ?thesis by (simp add: loop_iteration_def)
  qed
qed

lemma run_training_loop_funpow:
  assumes "\<forall>t e. deploy_updates env t = Some e \<longrightarrow> is_Exception e"
  shows "run_training_loop env n s = (None, ((\<lambda>s. snd (loop_iteration env s)) ^^ n) s)"
proof (induction n arbitrary: s)
  case 0
  show ?case by simp
next
  case (Suc n)
  obtain s1 where it: "loop_iteration env s = (None, s1)"
    using loop_iteration_continues [OF assms, of s] by (cases "loop_iteration env s") auto
  then have "run_training_loop env (Suc n) s = run_training_loop env n s1" by simp
  also have "\<dots> = (None, ((\<lambda>s. snd (loop_iteration env s)) ^^ n) s1)" by (rule Suc.IH)
  also have "((\<lambda>s. snd (loop_iteration env s)) ^^ n) s1 = ((\<lambda>s. snd (loop_iteration env s)) ^^ Suc n) s"
    using it by (simp add: funpow_Suc_right del: funpow.simps)
  finally show ?case .
qed

lemma funpow_draws:
  "draws (((\<lambda>s. snd (loop_iteration env s)) ^^ n) s) = draws s + 2 * n"
  by (induction n) (simp_all add: loop_iteration_draws)

lemma funpow_history:
  "length (performance_history (((\<lambda>s. snd (loop_iteration env s)) ^^ n) s))
     = length (performance_history s) + n"
proof (induction n)
  case 0
  show ?case by simp
next
  case (Suc n)
  have step: "length (performance_history (snd (loop_iteration env s'))) = length (performance_history s') + 1" for s'
  proof -
    obtain r s1 where b: "try_body env s' = (r, s1)" by (cases "try_body env s'")
    then have "length (performance_history s1) = length (performance_history s') + 1"
      by (auto simp: try_body_eq Let_def emit_def split: if_splits option.splits)
    with b show ?thesis
      by (cases r) (simp_all add: loop_iteration_def emit_def)
  qed
  show ?case using Suc by (simp add: step)
qed


lemma run_training_loop_continues:
  assumes "\<forall>t e. deploy_updates env t = Some e \<longrightarrow> is_Exception e"
  shows "fst (run_training_loop env n s) = None"
proof (induction n arbitrary: s)
  case 0
  show ?case by simp
next
  case (Suc n)
  obtain r s1 where b: "try_body env s = (r, s1)" by (cases "try_body env s")
  show ?case
  proof (cases r)
    case (Inr u)
    with b have "loop_iteration env s = (None, s1)" by (simp add: loop_iteration_def)
    with Suc.IH [of s1] show ?thesis by simp
  next
    case (Inl e)
    with b have "deploy_updates env (trainer s) = Some e" by (simp add: try_body_raises)
    with assms have "is_Exception e" by blast
    with b Inl have "loop_iteration env s = (None, emit [LogError e, Sleep 3600] s1)"
      by (simp add: loop_iteration_def)
    with Suc.IH [of "emit [LogError e, Sleep 3600] s1"] show ?thesis by simp
  qed
qed

subsection \<open>Claims\<close>

text \<open>
  C8. In every cycle, from any state, the deployment step (the log line and the call of
  \<open>deploy_updates\<close>) is reached exactly when the score computed after retraining,
  the second draw of the cycle, is strictly greater than the score computed before, the
  first draw, which is the one appended to the history. With equal scores, or a lower
  second score, it is not reached.
\<close>

theorem deploy_iff_strict_improvement:
  "(DeployUpdates \<in> set (cycle_events env s) \<longleftrightarrow>
      random_draws env (Suc (draws s)) > random_draws env (draws s)) \<and>
   fst (evaluate_performance env (collect_new_data s)) = random_draws env (draws s) \<and>
   fst (evaluate_performance env (snd (evaluate_performance env (collect_new_data s))))
     = random_draws env (Suc (draws s)) \<and>
   performance_history (snd (try_body env s))
     = performance_history s @ [random_draws env (draws s)]"
  by (simp add: cycle_events_def try_body_eq Let_def emit_def evaluate_performance_def
      collect_new_data_def split: option.splits)

text \<open>
  C8 on the scenario of the specification: from 0.80 to 0.79 the cycle does not reach
  deployment, from 0.80 to 0.81 it does.
\<close>

theorem deploy_iff_strict_improvement_witness:
  "DeployUpdates \<notin> set (cycle_events
      \<lparr>random_draws = (\<lambda>n. if n = 0 then 80 / 100 else 79 / 100), fit = (\<lambda>c. Inr ()),
       get_module_config = (\<lambda>n. Inl (AttributeError ''get_module_config'')),
       deploy_updates = (\<lambda>t. Some (AttributeError ''deploy_updates''))\<rparr>
      \<lparr>trainer = \<lparr>output_dir = ''./trained_modules'', trained_modules = Map.empty\<rparr>,
       performance_history = [], draws = 0, trace = []\<rparr>) \<and>
   DeployUpdates \<in> set (cycle_events
      \<lparr>random_draws = (\<lambda>n. if n = 0 then 80 / 100 else 81 / 100), fit = (\<lambda>c. Inr ()),
       get_module_config = (\<lambda>n. Inl (AttributeError ''get_module_config'')),
       deploy_updates = (\<lambda>t. Some (AttributeError ''deploy_updates''))\<rparr>
      \<lparr>trainer = \<lparr>output_dir = ''./trained_modules'', trained_modules = Map.empty\<rparr>,
       performance_history = [], draws = 0, trace = []\<rparr>)"
proof -
  let ?s = "\<lparr>trainer = \<lparr>output_dir = ''./trained_modules'', trained_modules = Map.empty\<rparr>,
       performance_history = [], draws = 0, trace = []\<rparr> :: unit ContinuousLearningPipeline"
  let ?e1 = "\<lparr>random_draws = (\<lambda>n. if n = 0 then 80 / 100 else 79 / 100), fit = (\<lambda>c. Inr ()),
       get_module_config = (\<lambda>n. Inl (AttributeError ''get_module_config'')),
       deploy_updates = (\<lambda>t. Some (AttributeError ''deploy_updates''))\<rparr> :: unit env"
  let ?e2 = "\<lparr>random_draws = (\<lambda>n. if n = 0 then 80 / 100 else 81 / 100), fit = (\<lambda>c. Inr ()),
       get_module_config = (\<lambda>n. Inl (AttributeError ''get_module_config'')),
       deploy_updates = (\<lambda>t. Some (AttributeError ''deploy_updates''))\<rparr> :: unit env"
  from deploy_iff_strict_improvement [of ?e1 ?s]
  have a: "DeployUpdates \<notin> set (cycle_events ?e1 ?s)" by simp
  from deploy_iff_strict_improvement [of ?e2 ?s]
  have b: "DeployUpdates \<in> set (cycle_events ?e2 ?s)" by simp
  from a b show ?thesis by blast
qed


text \<open>
  C9. When the \<open>try\<close> block of a cycle raises an \<open>Exception\<close>, the round logs the
  error, sleeps 3600 seconds and the loop goes on with the next round from the state the
  handler has left. A round without an exception ends with the sleep of 86400 seconds,
  and 3600 is less; the loop goes on from its state as well. Only an exception that is
  not an \<open>Exception\<close> leaves the loop. Nothing in a cycle but \<open>deploy_updates\<close>
  can raise; as long as what it raises is an \<open>Exception\<close>, the loop is never left:
  after \<open>n\<close> rounds it is still running, its state is that of \<open>n\<close> rounds applied
  one after the other, with two more scores drawn and one more score recorded per round.
\<close>

theorem loop_retries_after_exception:
  "(\<forall>e s1. try_body env s = (Inl e, s1) \<and> is_Exception e \<longrightarrow>
       loop_iteration env s = (None, s1\<lparr>trace := trace s1 @ [LogError e, Sleep 3600]\<rparr>) \<and>
       run_training_loop env (Suc n) s =
         run_training_loop env n (s1\<lparr>trace := trace s1 @ [LogError e, Sleep 3600]\<rparr>)) \<and>
   (\<forall>s1. try_body env s = (Inr (), s1) \<longrightarrow>
       loop_iteration env s = (None, s1) \<and> last (trace s1) = Sleep 86400 \<and>
       run_training_loop env (Suc n) s = run_training_loop env n s1) \<and>
   (\<forall>e s1. try_body env s = (Inl e, s1) \<and> \<not> is_Exception e \<longrightarrow>
       loop_iteration env s = (Some e, s1) \<and>
       run_training_loop env (Suc n) s = (Some e, s1)) \<and>
   (3600 :: nat) < 86400 \<and>
   run_training_loop env 0 s = (None, s) \<and>
   ((\<forall>t e. deploy_updates env t = Some e \<longrightarrow> is_Exception e) \<longrightarrow>
       fst (run_training_loop env n s) = None \<and>
       run_training_loop env n s = (None, ((\<lambda>s. snd (loop_iteration env s)) ^^ n) s) \<and>
       draws (snd (run_training_loop env n s)) = draws s + 2 * n \<and>
       length (performance_history (snd (run_training_loop env n s)))
         = length (performance_history s) + n)"
proof (intro conjI allI impI)
  fix e s1 assume a: "try_body env s = (Inl e, s1) \<and> is_Exception e"
  then show it: "loop_iteration env s = (None, s1\<lparr>trace := trace s1 @ [LogError e, Sleep 3600]\<rparr>)"
    by (simp add: loop_iteration_def emit_def)
  then show "run_training_loop env (Suc n) s =
         run_training_loop env n (s1\<lparr>trace := trace s1 @ [LogError e, Sleep 3600]\<rparr>)"
    by simp
next
  fix s1 assume a: "try_body env s = (Inr (), s1)"
  then show it: "loop_iteration env s = (None, s1)" by (simp add: loop_iteration_def)
  from a show "last (trace s1) = Sleep 86400" by (rule try_body_returns)
  from it show "run_training_loop env (Suc n) s = run_training_loop env n s1" by simp
next
  fix e s1 assume a: "try_body env s = (Inl e, s1) \<and> \<not> is_Exception e"
  then show it: "loop_iteration env s = (Some e, s1)" by (simp add: loop_iteration_def)
  then show "run_training_loop env (Suc n) s = (Some e, s1)" by simp
next
  show "(3600 :: nat) < 86400" by simp
next
  show "run_training_loop env 0 s = (None, s)" by simp
next
  assume only: "\<forall>t e. deploy_updates env t = Some e \<longrightarrow> is_Exception e"
  show run: "run_training_loop env n s = (None, ((\<lambda>s. snd (loop_iteration env s)) ^^ n) s)"
    using only by (rule run_training_loop_funpow)
  then show "fst (run_training_loop env n s) = None" by simp
  from run show "draws (snd (run_training_loop env n s)) = draws s + 2 * n"
    by (simp add: funpow_draws)
  from run show "length (performance_history (snd (run_training_loop env n s)))
         = length (performance_history s) + n"
    by (simp add: funpow_history)
qed

text \<open>
  C9 on the source as it stands: \<open>deploy_updates\<close> is not defined, so a cycle whose
  score improves raises \<open>AttributeError\<close>; the round logs it and sleeps 3600 seconds.
  After five rounds the loop is still running and has drawn ten scores and recorded five.
\<close>

theorem loop_retries_after_exception_witness:
  "loop_iteration
      \<lparr>random_draws = (\<lambda>n. if n = 0 then 80 / 100 else 81 / 100), fit = (\<lambda>c. Inr ()),
       get_module_config = (\<lambda>n. Inl (AttributeError ''get_module_config'')),
       deploy_updates = (\<lambda>t. Some (AttributeError ''deploy_updates''))\<rparr>
      \<lparr>trainer = \<lparr>output_dir = ''./trained_modules'', trained_modules = Map.empty\<rparr>,
       performance_history = [], draws = 0, trace = []\<rparr>
    = (None,
       \<lparr>trainer = \<lparr>output_dir = ''./trained_modules'', trained_modules = Map.empty\<rparr>,
        performance_history = [80 / 100], draws = 2,
        trace = [LogInfo ''Performance improved! Deploying updates...'', DeployUpdates,
                 LogError (AttributeError ''deploy_updates''), Sleep 3600]\<rparr>) \<and>
   fst (run_training_loop
      \<lparr>random_draws = (\<lambda>n. if n = 0 then 80 / 100 else 81 / 100), fit = (\<lambda>c. Inr ()),
       get_module_config = (\<lambda>n. Inl (AttributeError ''get_module_config'')),
       deploy_updates = (\<lambda>t. Some (AttributeError ''deploy_updates''))\<rparr> 5
      \<lparr>trainer = \<lparr>output_dir = ''./trained_modules'', trained_modules = Map.empty\<rparr>,
       performance_history = [], draws = 0, trace = []\<rparr>) = None \<and>
   draws (snd (run_training_loop
      \<lparr>random_draws = (\<lambda>n. if n = 0 then 80 / 100 else 81 / 100), fit = (\<lambda>c. Inr ()),
       get_module_config = (\<lambda>n. Inl (AttributeError ''get_module_config'')),
       deploy_updates = (\<lambda>t. Some (AttributeError ''deploy_updates''))\<rparr> 5
      \<lparr>trainer = \<lparr>output_dir = ''./trained_modules'', trained_modules = Map.empty\<rparr>,
       performance_history = [], draws = 0, trace = []\<rparr>)) = 10 \<and>
   length (performance_history (snd (run_training_loop
      \<lparr>random_draws = (\<lambda>n. if n = 0 then 80 / 100 else 81 / 100), fit = (\<lambda>c. Inr ()),
       get_module_config = (\<lambda>n. Inl (AttributeError ''get_module_config'')),
       deploy_updates = (\<lambda>t. Some (AttributeError ''deploy_updates''))\<rparr> 5
      \<lparr>trainer = \<lparr>output_dir = ''./trained_modules'', trained_modules = Map.empty\<rparr>,
       performance_history = [], draws = 0, trace = []\<rparr>))) = 5"
proof -
  let ?s = "\<lparr>trainer = \<lparr>output_dir = ''./trained_modules'', trained_modules = Map.empty\<rparr>,
       performance_history = [], draws = 0, trace = []\<rparr> :: unit ContinuousLearningPipeline"
  let ?env = "\<lparr>random_draws = (\<lambda>n. if n = 0 then 80 / 100 else 81 / 100), fit = (\<lambda>c. Inr ()),
       get_module_config = (\<lambda>n. Inl (AttributeError ''get_module_config'')),
       deploy_updates = (\<lambda>t. Some (AttributeError ''deploy_updates''))\<rparr> :: unit env"
  let ?s1 = "\<lparr>trainer = \<lparr>output_dir = ''./trained_modules'', trained_modules = Map.empty\<rparr>,
        performance_history = [80 / 100], draws = 2,
        trace = [LogInfo ''Performance improved! Deploying updates...'', DeployUpdates]\<rparr>
        :: unit ContinuousLearningPipeline"
  have body: "try_body ?env ?s = (Inl (AttributeError ''deploy_updates''), ?s1)"
    by (simp add: try_body_eq Let_def emit_def)
  have ok_exc: "is_Exception (AttributeError ''deploy_updates'')" by simp
  have only: "\<forall>t e. deploy_updates ?env t = Some e \<longrightarrow> is_Exception e" by simp
  note inst = loop_retries_after_exception [of ?env ?s 5]
  from inst body ok_exc
  have a: "loop_iteration ?env ?s =
     (None, ?s1\<lparr>trace := trace ?s1 @ [LogError (AttributeError ''deploy_updates''), Sleep 3600]\<rparr>)"
    by blast
  from inst only have b: "fst (run_training_loop ?env 5 ?s) = None"
    and c: "draws (snd (run_training_loop ?env 5 ?s)) = draws ?s + 2 * 5"
    and d: "length (performance_history (snd (run_training_loop ?env 5 ?s)))
         = length (performance_history ?s) + 5"
    by blast+
  from a b c d show ?thesis by simp
qed

text \<open>
  C10. For every score the selection step returns the empty list. So the retraining loop
  of a cycle returns at once with the state unchanged, and neither a cycle nor any number
  of rounds of the loop changes the trainer's registry.
\<close>

theorem no_targets_no_retraining:
  "identify_improvement_targets performance = [] \<and>
   train_selected env (identify_improvement_targets performance) s = (Inr (), s) \<and>
   trained_modules (trainer (snd (try_body env s))) = trained_modules (trainer s) \<and>
   trained_modules (trainer (snd (run_training_loop env n s))) = trained_modules (trainer s)"
  by (simp add: identify_improvement_targets_def try_body_trainer run_training_loop_trainer)

end
